theory Spec2Isabelle
  imports Complex_Main
begin

section \<open>Errors\<close>

text \<open>
  The exceptions the modelled functions can raise.  \<open>CollaboratorError\<close> stands for any
  exception raised inside an external collaborator (the denoising model's forward pass,
  the prompt encoder).
\<close>

datatype error =
    ValueError
  | AssertionError
  | AttributeError
  | RuntimeError
  | NotImplementedError
  | UnboundLocalError
  | CollaboratorError

section \<open>Timestep sampling (BaseSDTrainProcess.process_general_training_batch)\<close>

text \<open>
  The fields of \<open>train_config\<close> and of the scheduler configuration that the timestep
  block (lines 511-549) reads.
\<close>

record sampler_config =
  content_or_style :: string
  min_denoising_steps :: int
  max_denoising_steps :: int
  num_train_timesteps :: int

text \<open>
  Modelled from the spec: \<open>value_map\<close> of \<open>toolkit.basic\<close> is imported by the sources but
  is not among them; the specification calls it a remapping into the range, which
  is the linear map of the interval \<open>[min_in, max_in]\<close> onto \<open>[min_out, max_out]\<close>.
\<close>

definition value_map :: "real \<Rightarrow> real \<Rightarrow> real \<Rightarrow> real \<Rightarrow> real \<Rightarrow> real" where
  "value_map inputs min_in max_in min_out max_out =
     (inputs - min_in) * (max_out - min_out) / (max_in - min_in) + min_out"

text \<open>\<open>Tensor.long()\<close>: conversion of a float to an integer truncates toward zero.\<close>

definition long :: "real \<Rightarrow> int" where
  "long x = (if 0 \<le> x then \<lfloor>x\<rfloor> else \<lceil>x\<rceil>)"

text \<open>
  \<open>Tensor.clamp(lo, hi)\<close> computes \<open>min(max(x, lo), hi)\<close>; when \<open>lo > hi\<close> every
  element becomes \<open>hi\<close>.
\<close>

definition clamp :: "int \<Rightarrow> int \<Rightarrow> int \<Rightarrow> int" where
  "clamp lo hi x = min (max x lo) hi"

text \<open>The cubic warp of one uniform draw \<open>u\<close> (lines 523-526).\<close>

definition warp :: "sampler_config \<Rightarrow> real \<Rightarrow> real" where
  "warp cfg u =
     (if content_or_style cfg = ''style'' then u ^ 3 * real_of_int (num_train_timesteps cfg)
      else if content_or_style cfg = ''content''
        then (1 - u ^ 3) * real_of_int (num_train_timesteps cfg)
      else u)"

text \<open>Warp, remap, truncate and clamp one draw (lines 523-538).\<close>

definition warp_timestep :: "sampler_config \<Rightarrow> real \<Rightarrow> int" where
  "warp_timestep cfg u =
     clamp (min_denoising_steps cfg + 1) (max_denoising_steps cfg - 1)
       (long (value_map (warp cfg u) 0 (real_of_int (num_train_timesteps cfg - 1))
                (real_of_int (min_denoising_steps cfg))
                (real_of_int (max_denoising_steps cfg))))"

text \<open>
  \<open>torch.randint(low, high, (n,))\<close>: it raises when \<open>low \<ge> high\<close>; otherwise each raw
  output \<open>k\<close> of the generator is reduced to \<open>low + k mod (high - low)\<close>.
\<close>

definition randint :: "int \<Rightarrow> int \<Rightarrow> nat list \<Rightarrow> error + int list" where
  "randint low high raws =
     (if low < high then Inr (map (\<lambda>k. low + int k mod (high - low)) raws)
      else Inl RuntimeError)"

text \<open>
  The timestep block.  The randomness is an input: \<open>us\<close> are the values of
  \<open>torch.rand((batch_size,))\<close>, each in \<open>[0, 1)\<close>, and \<open>raws\<close> the raw generator outputs
  behind \<open>torch.randint\<close>; both have one entry per batch item.
\<close>

definition sample_timesteps :: "sampler_config \<Rightarrow> real list \<Rightarrow> nat list \<Rightarrow> error + int list" where
  "sample_timesteps cfg us raws =
     (if content_or_style cfg \<in> {''style'', ''content''}
        then Inr (map (warp_timestep cfg) us)
      else if content_or_style cfg = ''balanced''
        then randint (min_denoising_steps cfg) (max_denoising_steps cfg) raws
      else Inl ValueError)"

section \<open>Tensors\<close>

text \<open>
  A rank-4 tensor \<open>(batch, channel, height, width)\<close> is a nested list of reals: floating
  point is idealised to real arithmetic, so a tensor entry is never NaN or infinite.  A
  tensor of lower rank that meets a rank-4 tensor in an elementwise operation is written
  with leading dimensions of size one, which is how torch aligns shapes for broadcasting.
  The operations agree with torch on rectangular tensors whose shapes broadcast; on other
  shapes torch raises inside the library and the model truncates like \<open>zip\<close>.
\<close>

type_synonym tensor4 = "real list list list list"

text \<open>Elementwise combination along one dimension; a dimension of size one is broadcast.\<close>

fun bzip :: "('a \<Rightarrow> 'b \<Rightarrow> 'c) \<Rightarrow> 'a list \<Rightarrow> 'b list \<Rightarrow> 'c list" where
  "bzip f [x] ys = map (f x) ys"
| "bzip f xs [y] = map (\<lambda>x. f x y) xs"
| "bzip f xs ys = map2 f xs ys"

definition t4 :: "(real \<Rightarrow> real \<Rightarrow> real) \<Rightarrow> tensor4 \<Rightarrow> tensor4 \<Rightarrow> tensor4" where
  "t4 f = bzip (bzip (bzip (bzip f)))"

definition tmap :: "(real \<Rightarrow> real) \<Rightarrow> tensor4 \<Rightarrow> tensor4" where
  "tmap f = map (map (map (map f)))"

text \<open>
  \<open>Tensor.mean()\<close> over all entries.  On an empty tensor torch gives NaN; in HOL the
  quotient \<open>0 / 0\<close> is \<open>0\<close>.
\<close>

definition mean :: "real list \<Rightarrow> real" where
  "mean xs = sum_list xs / real (length xs)"

text \<open>\<open>Tensor.mean([1, 2, 3])\<close>: one mean per batch item.\<close>

definition mean123 :: "tensor4 \<Rightarrow> real list" where
  "mean123 t = map (\<lambda>item. mean (concat (concat item))) t"

text \<open>\<open>Tensor.mean([2, 3], keepdim=True)\<close> and \<open>Tensor.std([2, 3], keepdim=True)\<close> (the
  unbiased estimator): one value per batch item and channel.\<close>

definition std :: "real list \<Rightarrow> real" where
  "std xs = sqrt (sum_list (map (\<lambda>x. (x - mean xs) ^ 2) xs) / (real (length xs) - 1))"

definition mean23 :: "tensor4 \<Rightarrow> tensor4" where
  "mean23 t = map (map (\<lambda>ch. [[mean (concat ch)]])) t"

definition std23 :: "tensor4 \<Rightarrow> tensor4" where
  "std23 t = map (map (\<lambda>ch. [[std (concat ch)]])) t"

text \<open>\<open>torch.linalg.vector_norm(t, ord=2, dim=(1, 2, 3), keepdim=True)\<close>.\<close>

definition vector_norm123 :: "tensor4 \<Rightarrow> tensor4" where
  "vector_norm123 t =
     map (\<lambda>item. [[[sqrt (sum_list (map (\<lambda>x. x ^ 2) (concat (concat item))))]]]) t"

text \<open>\<open>torch.nn.functional.mse_loss\<close> and \<open>l1_loss\<close> with \<open>reduction="none"\<close>.\<close>

definition mse_loss :: "tensor4 \<Rightarrow> tensor4 \<Rightarrow> tensor4" where
  "mse_loss a b = t4 (\<lambda>x y. (x - y) ^ 2) a b"

definition l1_loss :: "tensor4 \<Rightarrow> tensor4 \<Rightarrow> tensor4" where
  "l1_loss a b = t4 (\<lambda>x y. \<bar>x - y\<bar>) a b"

text \<open>
  A rectangular tensor of shape \<open>(B, C, H, W)\<close>, and the list of all its entries.
\<close>

definition has_shape :: "nat \<Rightarrow> nat \<Rightarrow> nat \<Rightarrow> nat \<Rightarrow> tensor4 \<Rightarrow> bool" where
  "has_shape B C H W t =
     (length t = B \<and>
      list_all (\<lambda>item. length item = C \<and>
        list_all (\<lambda>ch. length ch = H \<and> list_all (\<lambda>row. length row = W) ch) item) t)"

definition flatten :: "tensor4 \<Rightarrow> real list" where
  "flatten t = concat (concat (concat t))"

section \<open>Configuration, batch and collaborators\<close>

text \<open>The fields of \<open>train_config\<close> read by the loss computation and the training step.\<close>

record train_config =
  loss_target :: string
  match_noise_norm :: bool
  pred_scaler :: real
  correct_pred_norm :: bool
  correct_pred_norm_multiplier :: real
  inverted_mask_prior :: bool
  inverted_mask_prior_multiplier :: real
  do_prior_divergence :: bool
  train_turbo :: bool
  loss_type :: string
  learnable_snr_gos :: bool
  snr_gamma :: "real option"
  min_snr_gamma :: "real option"
  latent_multiplier :: real
  cfg_scale :: real
  cfg_rescale :: bool
  reg_weight :: real

text \<open>
  The fields of \<open>DataLoaderBatchDTO\<close> that are read (\<open>caption_list\<close> and \<open>is_reg_list\<close>
  are what \<open>get_caption_list()\<close> and \<open>get_is_reg_list()\<close> return).  \<open>mask_min_value\<close> and
  \<open>guidance_type\<close> are those of \<open>file_items[0].dataset_config\<close>.
\<close>

record batch =
  caption_list :: "string list"
  is_reg_list :: "bool list"
  loss_multiplier_list :: "real list"
  mask_tensor :: "tensor4 option"
  mask_min_value :: real
  sigmas :: "tensor4 option"
  latents :: tensor4
  unconditional_latents :: "tensor4 option"
  tensor :: "tensor4 option"
  unaugmented_tensor :: "tensor4 option"
  guidance_type :: string

text \<open>
  \<open>PromptEmbeds.text_embeds\<close> is a tensor \<open>(batch, tokens, dim)\<close>; \<open>pred_kwargs\<close> is a
  dictionary from names to lists of residual tensors, kept as an association list.
\<close>

type_synonym prompt_embeds = "real list list list"

type_synonym kwargs = "(string \<times> tensor4 list) list"

text \<open>
  The trainable network and the adapter are objects with an \<open>is_active\<close> flag.  The
  network's \<open>multiplier\<close> is a list with one weight per batch item.  \<open>additional_loss\<close>
  is \<open>None\<close> both for an adapter without that attribute and for one whose attribute is
  \<open>None\<close>.
\<close>

record module =
  is_active :: bool

record network_state = module +
  multiplier :: "real list"

datatype adapter_kind =
    IPAdapter | ReferenceAdapter | CustomAdapter | ClipVisionAdapter | T2IAdapter
  | ControlNetModel

record adapter_state = module +
  kind :: adapter_kind
  additional_loss :: "real list option"

text \<open>
  The keyword arguments of one call of \<open>sd.predict_noise\<close> (\<open>None\<close> for an argument that
  the call leaves at its default), and the call itself: whether gradients are tracked,
  and the state of the network, the adapter and the U-Net at the time of the call.
\<close>

record pred_args =
  arg_latents :: tensor4
  conditional_embeddings :: prompt_embeds
  unconditional_embeddings :: "prompt_embeds option"
  timestep :: "int list"
  guidance_scale :: real
  rescale_cfg :: "bool option"
  residuals :: kwargs

record forward_call =
  grad_enabled :: bool
  call_network :: "network_state option"
  call_adapter :: "adapter_state option"
  call_unet_training :: bool
  call_args :: pred_args

text \<open>
  The denoising model service \<open>sd\<close> and the helpers of \<open>toolkit.train_tools\<close>, which are
  not among the sources: they are parameters.  \<open>predict_noise\<close> and \<open>encode_prompt\<close> may
  raise; the other collaborators are taken to return.
\<close>

record stable_diffusion =
  prediction_type :: string
  scheduler_prediction_type :: string
  is_v3 :: bool
  predict_noise :: "forward_call \<Rightarrow> error + tensor4"
  encode_prompt :: "string list \<Rightarrow> error + prompt_embeds"
  add_noise :: "tensor4 \<Rightarrow> tensor4 \<Rightarrow> int list \<Rightarrow> tensor4"
  encode_images :: "tensor4 \<Rightarrow> tensor4"
  get_velocity :: "tensor4 \<Rightarrow> tensor4 \<Rightarrow> int list \<Rightarrow> tensor4"
  process_output_for_turbo ::
    "tensor4 \<Rightarrow> tensor4 \<Rightarrow> int list \<Rightarrow> tensor4 \<Rightarrow> batch \<Rightarrow> tensor4 \<times> tensor4"
  interpolate :: "tensor4 \<Rightarrow> tensor4 \<Rightarrow> tensor4"
  apply_learnable_snr_gos :: "real list \<Rightarrow> int list \<Rightarrow> real list"
  apply_snr_weight :: "real list \<Rightarrow> int list \<Rightarrow> real \<Rightarrow> bool \<Rightarrow> real list"

section \<open>Loss computation (SDTrainer.calculate_loss)\<close>

text \<open>
  Lines 277-295: the noise is renormalised so that its statistics per item and channel
  move from those of the prediction toward those of the prior prediction.
\<close>

definition correct_noise_norm :: "train_config \<Rightarrow> tensor4 \<Rightarrow> tensor4 \<Rightarrow> tensor4 \<Rightarrow> tensor4" where
  "correct_noise_norm cfg prior noise_pred noise =
     (let prior_mean = mean23 prior;
          prior_std = std23 prior;
          noise_mean = mean23 noise_pred;
          noise_std = std23 noise_pred;
          mean_adjust = t4 (-) prior_mean noise_mean;
          std_adjust = t4 (-) prior_std noise_std;
          mean_adjust = tmap (\<lambda>x. x * correct_pred_norm_multiplier cfg) mean_adjust;
          std_adjust = tmap (\<lambda>x. x * correct_pred_norm_multiplier cfg) std_adjust;
          target_mean = t4 (+) noise_mean mean_adjust;
          target_std = t4 (+) noise_std std_adjust;
          eps = 1 / 100000;
          noise = t4 (/) (t4 (-) noise noise_mean) (tmap (\<lambda>x. x + eps) noise_std);
          noise = t4 (+) (t4 (*) noise (tmap (\<lambda>x. x + eps) target_std)) target_mean
      in noise)"

text \<open>
  Lines 271-329: the choice of the regression target.  The result is the target, the
  noise (replaced by the renormalised noise where that was computed) and
  \<open>prior_mask_multiplier\<close>.
\<close>

definition select_target ::
  "train_config \<Rightarrow> stable_diffusion \<Rightarrow> batch \<Rightarrow> tensor4 \<Rightarrow> tensor4 \<Rightarrow> int list \<Rightarrow> tensor4
     \<Rightarrow> tensor4 option \<Rightarrow> error + (tensor4 \<times> tensor4 \<times> tensor4 option)" where
  "select_target cfg sd b noise_pred noise timesteps mask_multiplier prior_pred =
     (let is_reg = (True \<in> set (is_reg_list b));
          has_mask = (mask_tensor b \<noteq> None)
      in
      if correct_pred_norm cfg \<or> (inverted_mask_prior cfg \<and> prior_pred \<noteq> None \<and> has_mask) then
        (let noise1 =
               (if correct_pred_norm cfg \<and> \<not> is_reg then
                  (case prior_pred of
                     None \<Rightarrow> noise
                   | Some prior \<Rightarrow> correct_noise_norm cfg prior noise_pred noise)
                else noise)
         in
         if inverted_mask_prior cfg \<and> prior_pred \<noteq> None \<and> has_mask then
           (if train_turbo cfg then Inl AssertionError
            else
              (let stretched_mask_multiplier =
                     tmap (\<lambda>m. value_map m (mask_min_value b) 1 0 1) mask_multiplier;
                   prior_mask_multiplier = tmap (\<lambda>m. 1 - m) stretched_mask_multiplier
               in Inr (noise1, noise1, Some prior_mask_multiplier)))
         else Inr (noise1, noise1, None))
      else if prior_pred \<noteq> None \<and> \<not> do_prior_divergence cfg then
        (if train_turbo cfg then Inl AssertionError
         else Inr (the prior_pred, noise, None))
      else if prediction_type sd = ''v_prediction'' then
        (case tensor b of
           None \<Rightarrow> Inl CollaboratorError
         | Some imgs \<Rightarrow> Inr (get_velocity sd imgs noise timesteps, noise, None))
      else Inr (noise, noise, None))"

text \<open>Lines 262-269: norm matching and prediction scaling.\<close>

definition scale_prediction :: "train_config \<Rightarrow> tensor4 \<Rightarrow> tensor4 \<Rightarrow> tensor4" where
  "scale_prediction cfg noise_pred noise =
     (let noise_pred1 =
            (if match_noise_norm cfg then
               (let noise_norm = vector_norm123 noise;
                    noise_pred_norm = vector_norm123 noise_pred
                in t4 (*) noise_pred (t4 (/) noise_norm noise_pred_norm))
             else noise_pred)
      in if pred_scaler cfg \<noteq> 1 then tmap (\<lambda>x. x * pred_scaler cfg) noise_pred1
         else noise_pred1)"

text \<open>
  Lines 338-396: the unreduced loss.  \<open>sigmas ** -2.0\<close> is \<open>1 / sigma\<^sup>2\<close>; where a sigma
  is zero torch gives infinity and HOL gives zero.  For SD3 the loss is reshaped to
  \<open>(batch, -1)\<close>, which broadcasts against a rank-4 tensor as \<open>(1, 1, batch, -1)\<close>; its
  weighting is a tensor of ones.
\<close>

definition elementwise_loss ::
  "train_config \<Rightarrow> stable_diffusion \<Rightarrow> batch \<Rightarrow> tensor4 \<Rightarrow> tensor4 \<Rightarrow> tensor4 \<Rightarrow> tensor4
     \<Rightarrow> tensor4 \<Rightarrow> int list \<Rightarrow> error + tensor4" where
  "elementwise_loss cfg sd b noise_pred pred target noise noisy_latents timesteps =
     (if loss_target cfg = ''source'' \<or> loss_target cfg = ''unaugmented'' then
        (if train_turbo cfg then Inl AssertionError
         else
           (case sigmas b of
              None \<Rightarrow> Inl ValueError
            | Some sg \<Rightarrow>
                (let denoised_latents = t4 (+) (t4 (*) noise_pred (tmap uminus sg)) noisy_latents;
                     weighing = tmap (\<lambda>x. 1 / x ^ 2) sg;
                     target1 =
                       (if loss_target cfg = ''source'' then Inr (latents b)
                        else
                          (case unaugmented_tensor b of
                             None \<Rightarrow> Inl CollaboratorError
                           | Some u \<Rightarrow>
                               (let unaugmented_latents =
                                      tmap (\<lambda>x. x * latent_multiplier cfg) (encode_images sd u)
                                in if scheduler_prediction_type sd = ''epsilon''
                                     then Inr unaugmented_latents
                                   else if scheduler_prediction_type sd = ''v_prediction''
                                     then Inr (get_velocity sd unaugmented_latents noise timesteps)
                                   else Inl ValueError)))
                 in case target1 of
                      Inl e \<Rightarrow> Inl e
                    | Inr tg \<Rightarrow> Inr (t4 (*) weighing (mse_loss denoised_latents tg)))))
      else if is_v3 sd then
        Inr [[map (\<lambda>item. concat (concat item)) (mse_loss pred noisy_latents)]]
      else if loss_type cfg = ''mae'' then Inr (l1_loss pred target)
      else Inr (mse_loss pred target))"

text \<open>Lines 398-399: the prior-divergence term.\<close>

definition prior_divergence :: "train_config \<Rightarrow> tensor4 \<Rightarrow> tensor4 \<Rightarrow> tensor4 option \<Rightarrow> tensor4" where
  "prior_divergence cfg loss pred prior_pred =
     (case prior_pred of
        Some prior \<Rightarrow>
          (if do_prior_divergence cfg
             then t4 (+) loss (tmap (\<lambda>x. x * (- 1)) (mse_loss pred prior))
           else loss)
      | None \<Rightarrow> loss)"

text \<open>Lines 406-407: the mask multiplies the unreduced loss.\<close>

definition masked_loss :: "tensor4 \<Rightarrow> tensor4 \<Rightarrow> tensor4" where
  "masked_loss loss mask_multiplier = t4 (*) loss mask_multiplier"

text \<open>
  Lines 406-407 and 426-428: the masked loss is reduced to one value per item, and the
  per-item loss multiplier multiplies the reduced loss.
\<close>

definition apply_mask_and_multiplier :: "tensor4 \<Rightarrow> tensor4 \<Rightarrow> real list \<Rightarrow> real list" where
  "apply_mask_and_multiplier loss mask_multiplier loss_multiplier =
     (let loss1 = masked_loss loss mask_multiplier;
          loss2 = mean123 loss1
      in bzip (*) loss2 loss_multiplier)"

text \<open>
  Lines 409-422: the loss against the prior prediction under the inverted mask.  The
  entries are reals, so the test \<open>torch.isnan(prior_loss).any()\<close> is false here.
\<close>

definition inverted_mask_prior_loss ::
  "train_config \<Rightarrow> tensor4 \<Rightarrow> tensor4 option \<Rightarrow> tensor4 option \<Rightarrow> error + real list option" where
  "inverted_mask_prior_loss cfg pred prior_pred prior_mask_multiplier =
     (case (prior_pred, prior_mask_multiplier) of
        (Some prior, Some pmm) \<Rightarrow>
          (if inverted_mask_prior cfg then
             (if train_turbo cfg then Inl AssertionError
              else
                (let prior_loss =
                       (if loss_type cfg = ''mae'' then l1_loss pred prior
                        else mse_loss pred prior);
                     prior_loss1 =
                       tmap (\<lambda>x. x * inverted_mask_prior_multiplier cfg) (t4 (*) prior_loss pmm)
                 in Inr (Some (mean123 prior_loss1))))
           else Inr None)
      | _ \<Rightarrow> Inr None)"

text \<open>Lines 432-442: at most one signal-to-noise reweighting.\<close>

definition snr_reweight :: "train_config \<Rightarrow> stable_diffusion \<Rightarrow> real list \<Rightarrow> int list \<Rightarrow> real list" where
  "snr_reweight cfg sd loss timesteps =
     (if \<not> train_turbo cfg then
        (if learnable_snr_gos cfg then apply_learnable_snr_gos sd loss timesteps
         else if snr_gamma cfg \<noteq> None \<and> the (snr_gamma cfg) > 1 / 1000000
           then apply_snr_weight sd loss timesteps (the (snr_gamma cfg)) True
         else if min_snr_gamma cfg \<noteq> None \<and> the (min_snr_gamma cfg) > 1 / 1000000
           then apply_snr_weight sd loss timesteps (the (min_snr_gamma cfg)) False
         else loss)
      else loss)"

text \<open>
  The whole of \<open>calculate_loss\<close>.  It returns the loss and the adapter, whose
  \<open>additional_loss\<close> is cleared once it has been added.
\<close>

definition calculate_loss ::
  "train_config \<Rightarrow> stable_diffusion \<Rightarrow> adapter_state option \<Rightarrow> tensor4 \<Rightarrow> tensor4 \<Rightarrow> tensor4
     \<Rightarrow> int list \<Rightarrow> batch \<Rightarrow> tensor4 \<Rightarrow> tensor4 option \<Rightarrow> error + (real \<times> adapter_state option)" where
  "calculate_loss cfg sd adp noise_pred0 noise0 noisy_latents timesteps b mask_multiplier prior_pred =
     (let loss_multiplier = loss_multiplier_list b;
          noise_pred = scale_prediction cfg noise_pred0 noise0
      in
      case select_target cfg sd b noise_pred noise0 timesteps mask_multiplier prior_pred of
        Inl e \<Rightarrow> Inl e
      | Inr (target0, noise, prior_mask_multiplier) \<Rightarrow>
          (let (pred, target) =
                 (if train_turbo cfg
                    then process_output_for_turbo sd noise_pred noisy_latents timesteps noise b
                  else (noise_pred, target0))
           in
           case elementwise_loss cfg sd b noise_pred pred target noise noisy_latents timesteps of
             Inl e \<Rightarrow> Inl e
           | Inr loss0 \<Rightarrow>
               (let loss1 = prior_divergence cfg loss0 pred prior_pred;
                    mask_multiplier1 =
                      (if train_turbo cfg then interpolate sd (map (drop 3) mask_multiplier) pred
                       else mask_multiplier)
                in
                case inverted_mask_prior_loss cfg pred prior_pred prior_mask_multiplier of
                  Inl e \<Rightarrow> Inl e
                | Inr prior_loss \<Rightarrow>
                    (let loss2 = apply_mask_and_multiplier loss1 mask_multiplier1 loss_multiplier;
                         loss3 = (case prior_loss of
                                    None \<Rightarrow> loss2
                                  | Some pl \<Rightarrow> bzip (+) loss2 pl);
                         loss4 = snr_reweight cfg sd loss3 timesteps;
                         loss5 = mean loss4
                     in
                     case adp of
                       None \<Rightarrow> Inr (loss5, None)
                     | Some a \<Rightarrow>
                         (case additional_loss a of
                            None \<Rightarrow> Inr (loss5, Some a)
                          | Some al \<Rightarrow>
                              Inr (loss5 + mean al, Some (a\<lparr>additional_loss := None\<rparr>)))))))"

section \<open>Trainer state and autograd\<close>

text \<open>
  A scalar loss tensor: its value (\<open>NaN\<close> or a number), its \<open>requires_grad\<close> flag, and
  whether its autograd graph leads to the trainable parameters.  A loss computed from a
  forward pass that tracked gradients does; a detached tensor and a fresh tensor do not.
\<close>

datatype fval = NaN | Num real

record scalar =
  val :: fval
  requires_grad :: bool
  graph_to_params :: bool

definition tracked :: "real \<Rightarrow> scalar" where
  "tracked v = \<lparr>val = Num v, requires_grad = True, graph_to_params = True\<rparr>"

definition detach :: "scalar \<Rightarrow> scalar" where
  "detach s = s\<lparr>requires_grad := False, graph_to_params := False\<rparr>"

text \<open>\<open>Tensor.requires_grad_(flag)\<close>.\<close>

definition set_requires_grad :: "bool \<Rightarrow> scalar \<Rightarrow> scalar" where
  "set_requires_grad flag s = s\<lparr>requires_grad := flag\<rparr>"

definition zeros_like :: "scalar \<Rightarrow> scalar" where
  "zeros_like s = \<lparr>val = Num 0, requires_grad = False, graph_to_params = False\<rparr>"

definition isnan :: "scalar \<Rightarrow> bool" where
  "isnan s = (val s = NaN)"

text \<open>Multiplication of a scalar tensor by a constant.\<close>

definition scalar_mul :: "scalar \<Rightarrow> real \<Rightarrow> scalar" where
  "scalar_mul s c = s\<lparr>val := (case val s of NaN \<Rightarrow> NaN | Num v \<Rightarrow> Num (v * c))\<rparr>"

text \<open>
  What the step does to the outside is kept as a trace of events: forward passes,
  backward passes (with the tensor they start from) and the optimizer's actions.
\<close>

datatype event =
    Forward forward_call
  | Backward scalar
  | ClipGradNorm
  | OptimizerStep
  | ZeroGrad
  | SchedulerStep
  | RestoreEmbeddings
  | RestoreAdapterEmbeddings

record trigger_config =
  trigger :: string
  trigger_class_name :: "string option"

record embed_config = trigger_config +
  tokens :: nat

record adapter_config = trigger_config +
  num_tokens :: nat

text \<open>
  The mutable state of the trainer: \<open>self.network\<close> (the same object as \<open>sd.network\<close>),
  \<open>self.adapter\<close>, the mode of \<open>sd.unet\<close>, and the trace.  \<open>embedding\<close> says whether
  \<open>self.embedding\<close> is set.
\<close>

record trainer =
  network :: "network_state option"
  adapter :: "adapter_state option"
  embedding :: bool
  the_embed_config :: "embed_config option"
  the_adapter_config :: "adapter_config option"
  unet_training :: bool
  is_grad_accumulation_step :: bool
  trace :: "event list"

text \<open>
  \<open>Tensor.backward()\<close>: it raises on a tensor that does not require grad; otherwise the
  backward pass runs from that tensor.  It changes the gradients of the parameters only if
  the graph of the tensor leads to them.
\<close>

definition backward :: "scalar \<Rightarrow> trainer \<Rightarrow> error + trainer" where
  "backward s st =
     (if requires_grad s then Inr (st\<lparr>trace := trace st @ [Backward s]\<rparr>)
      else Inl RuntimeError)"

text \<open>
  One call of \<open>sd.predict_noise\<close> in the current state: the call is appended to the trace
  and the collaborator gives the prediction or raises.
\<close>

definition forward :: "stable_diffusion \<Rightarrow> bool \<Rightarrow> pred_args \<Rightarrow> trainer \<Rightarrow> (error + tensor4) \<times> trainer" where
  "forward sd grad args st =
     (let call = \<lparr>grad_enabled = grad, call_network = network st, call_adapter = adapter st,
                  call_unet_training = unet_training st, call_args = args\<rparr>
      in (predict_noise sd call, st\<lparr>trace := trace st @ [Forward call]\<rparr>))"

section \<open>Prior prediction (SDTrainer.get_prior_prediction)\<close>

text \<open>\<open>str.replace(old, new)\<close>: every occurrence of \<open>old\<close>, left to right, not overlapping.\<close>

fun replace_from :: "string \<Rightarrow> string \<Rightarrow> nat \<Rightarrow> string \<Rightarrow> string" where
  "replace_from old new skip [] = []"
| "replace_from old new skip (c # cs) =
     (if 0 < skip then replace_from old new (skip - 1) cs
      else if take (length old) (c # cs) = old
        then new @ replace_from old new (length old - 1) cs
      else c # replace_from old new 0 cs)"

definition str_replace :: "string \<Rightarrow> string \<Rightarrow> string \<Rightarrow> string" where
  "str_replace old new s =
     (if old = [] then new @ concat (map (\<lambda>c. c # new) s)
      else replace_from old new 0 s)"

text \<open>The decimal digits of a number, as \<open>str(i)\<close> gives them.\<close>

fun show_nat :: "nat \<Rightarrow> string" where
  "show_nat n =
     (if n < 10 then [char_of (48 + n)]
      else show_nat (n div 10) @ [char_of (48 + n mod 10)])"

text \<open>The names \<open>f"{trigger}_{i}"\<close> for \<open>i\<close> in \<open>range(1, n)\<close>.\<close>

definition numbered_tokens :: "string \<Rightarrow> nat \<Rightarrow> string list" where
  "numbered_tokens trig n = map (\<lambda>i. trig @ ''_'' @ show_nat i) [1..<n]"

text \<open>
  Lines 815-820: in one caption the numbered tokens are removed and every trigger is
  replaced by the class name.
\<close>

definition rewrite_prompt :: "string list \<Rightarrow> string list \<Rightarrow> string \<Rightarrow> string \<Rightarrow> string" where
  "rewrite_prompt remove_tokens triggers class_name prompt =
     fold (\<lambda>t p. str_replace t class_name p) triggers
       (fold (\<lambda>t p. str_replace t [] p) remove_tokens prompt)"

text \<open>
  Lines 795-820.  Reading \<open>self.adapter_config\<close> fails when there is an adapter without a
  configuration.
\<close>

definition class_name_prompts :: "trainer \<Rightarrow> batch \<Rightarrow> error + string list" where
  "class_name_prompts st b =
     (let prompt_list = caption_list b;
          class_name = [];
          triggers = [''[trigger]'', ''[name]''];
          remove_tokens = [];
          (triggers, remove_tokens, class_name) =
            (case the_embed_config st of
               None \<Rightarrow> (triggers, remove_tokens, class_name)
             | Some ec \<Rightarrow>
                 (triggers @ [trigger ec],
                  remove_tokens @ numbered_tokens (trigger ec) (tokens ec),
                  (case trigger_class_name ec of None \<Rightarrow> class_name | Some c \<Rightarrow> c)))
      in
      case adapter st of
        None \<Rightarrow> Inr (map (rewrite_prompt remove_tokens triggers class_name) prompt_list)
      | Some a \<Rightarrow>
          (case the_adapter_config st of
             None \<Rightarrow> Inl AttributeError
           | Some ac \<Rightarrow>
               (let triggers = triggers @ [trigger ac];
                    remove_tokens = remove_tokens @ numbered_tokens (trigger ac) (num_tokens ac);
                    class_name = (case trigger_class_name ac of None \<Rightarrow> class_name | Some c \<Rightarrow> c)
                in Inr (map (rewrite_prompt remove_tokens triggers class_name) prompt_list))))"

text \<open>A slice \<open>xs[:end_pos]\<close>; a negative \<open>end_pos\<close> counts from the end.\<close>

definition slice_to :: "int \<Rightarrow> 'a list \<Rightarrow> 'a list" where
  "slice_to end_pos xs =
     (if 0 \<le> end_pos then take (nat end_pos) xs
      else take (nat (int (length xs) + end_pos)) xs)"

text \<open>\<open>shape[1]\<close> of a tensor; the nested list of an empty batch has lost it, and gives 0.\<close>

definition shape1 :: "'a list list \<Rightarrow> nat" where
  "shape1 t = (case t of [] \<Rightarrow> 0 | x # _ \<Rightarrow> length x)"

text \<open>Deleting a key from \<open>pred_kwargs\<close> if it is there (lines 857-862).\<close>

definition del_key :: "string \<Rightarrow> kwargs \<Rightarrow> kwargs" where
  "del_key k kw = filter (\<lambda>(k', v). k' \<noteq> k) kw"

definition strip_residuals :: "bool \<Rightarrow> kwargs \<Rightarrow> kwargs" where
  "strip_residuals match_adapter_assist pred_kwargs =
     (let kw1 = (if match_adapter_assist
                   \<and> ''down_intrablock_additional_residuals'' \<in> fst ` set pred_kwargs
                 then del_key ''down_intrablock_additional_residuals'' pred_kwargs
                 else pred_kwargs);
          kw2 = (if match_adapter_assist \<and> ''down_block_additional_residuals'' \<in> fst ` set kw1
                 then del_key ''down_block_additional_residuals'' kw1 else kw1)
      in if match_adapter_assist \<and> ''mid_block_additional_residual'' \<in> fst ` set kw2
         then del_key ''mid_block_additional_residual'' kw2 else kw2)"

text \<open>
  The function returns its result, or the exception it raised, together with
  \<open>pred_kwargs\<close> and the state of the trainer as they are at that moment: both are
  mutated in place, so the caller sees them whether the call returns or raises.
\<close>

definition get_prior_prediction ::
  "train_config \<Rightarrow> stable_diffusion \<Rightarrow> trainer \<Rightarrow> tensor4 \<Rightarrow> prompt_embeds \<Rightarrow> bool \<Rightarrow> int list
     \<Rightarrow> kwargs \<Rightarrow> batch \<Rightarrow> prompt_embeds option \<Rightarrow> (error + tensor4) \<times> kwargs \<times> trainer" where
  "get_prior_prediction cfg sd st noisy_latents conditional_embeds match_adapter_assist
       timesteps pred_kwargs b unconditional_embeds0 =
     (let was_unet_training = unet_training st;
          (was_network_active, st1) =
            (case network st of
               None \<Rightarrow> (False, st)
             | Some n \<Rightarrow> (is_active n, st\<lparr>network := Some (n\<lparr>is_active := False\<rparr>)\<rparr>));
          (can_disable_adapter, was_adapter_active, st2) =
            (case adapter st1 of
               None \<Rightarrow> (False, False, st1)
             | Some a \<Rightarrow>
                 (if kind a = IPAdapter \<or> kind a = ReferenceAdapter \<or> kind a = CustomAdapter
                    then (True, is_active a, st1\<lparr>adapter := Some (a\<lparr>is_active := False\<rparr>)\<rparr>)
                  else (False, False, st1)));
          is_clip_vision = (case adapter st2 of None \<Rightarrow> False | Some a \<Rightarrow> kind a = ClipVisionAdapter);
          is_ip = (case adapter st2 of None \<Rightarrow> False | Some a \<Rightarrow> kind a = IPAdapter);
          embeds_to_use0 =
            (if is_clip_vision \<or> embedding st2 then
               (case class_name_prompts st2 b of
                  Inl e \<Rightarrow> Inl e
                | Inr prompt_list \<Rightarrow> encode_prompt sd prompt_list)
             else Inr conditional_embeds)
      in
      case embeds_to_use0 of
        Inl e \<Rightarrow> (Inl e, pred_kwargs, st2)
      | Inr embeds_to_use1 \<Rightarrow>
          (let st3 = st2\<lparr>unet_training := False\<rparr>;
               trimmed =
                 (if is_ip then
                    (case the_adapter_config st3 of
                       None \<Rightarrow> Inl AttributeError
                     | Some ac \<Rightarrow>
                         (let end_pos = int (shape1 embeds_to_use1) - int (num_tokens ac)
                          in Inr (map (slice_to end_pos) embeds_to_use1,
                                  map_option (map (slice_to end_pos)) unconditional_embeds0)))
                  else Inr (embeds_to_use1, unconditional_embeds0))
           in
           case trimmed of
             Inl e \<Rightarrow> (Inl e, pred_kwargs, st3)
           | Inr (embeds_to_use, unconditional_embeds) \<Rightarrow>
               (let args = \<lparr>arg_latents = noisy_latents,
                            conditional_embeddings = embeds_to_use,
                            unconditional_embeddings = unconditional_embeds,
                            timestep = timesteps,
                            guidance_scale = cfg_scale cfg,
                            rescale_cfg = Some (cfg_rescale cfg),
                            residuals = pred_kwargs\<rparr>
                in
                case forward sd False args st3 of
                  (Inl e, st4) \<Rightarrow> (Inl e, pred_kwargs, st4)
                | (Inr prior_pred, st4) \<Rightarrow>
                    (let st5 = (if was_unet_training then st4\<lparr>unet_training := True\<rparr> else st4);
                         pred_kwargs1 = strip_residuals match_adapter_assist pred_kwargs;
                         st6 = (if can_disable_adapter then
                                  st5\<lparr>adapter :=
                                         map_option (\<lambda>a. a\<lparr>is_active := was_adapter_active\<rparr>)
                                           (adapter st5)\<rparr>
                                else st5);
                         st7 = (case network st6 of
                                  None \<Rightarrow> st6
                                | Some n \<Rightarrow>
                                    st6\<lparr>network := Some (n\<lparr>is_active := was_network_active\<rparr>)\<rparr>)
                     in (Inr prior_pred, pred_kwargs1, st7)))))"

section \<open>Guidance losses (toolkit.guidance and SDTrainer)\<close>

text \<open>
  \<open>torch.chunk(t, 2, dim=0)\<close> unpacked into two names: a batch of one row gives a single
  chunk, and the unpacking raises.
\<close>

definition chunk2 :: "'a list \<Rightarrow> error + ('a list \<times> 'a list)" where
  "chunk2 xs =
     (let n = length xs; k = (n + 1) div 2
      in if n = 0 then Inr ([], [])
         else if n = 1 then Inl ValueError
         else Inr (take k xs, drop k xs))"

text \<open>
  The last four statements of every strategy: \<open>loss.backward()\<close>, then the loss is
  detached, its \<open>requires_grad\<close> is set again, and it is returned.  The loss comes from a
  forward pass that tracked gradients.
\<close>

definition backward_and_detach :: "real \<Rightarrow> trainer \<Rightarrow> (error + scalar) \<times> trainer" where
  "backward_and_detach v st =
     (let loss = tracked v
      in case backward loss st of
           Inl e \<Rightarrow> (Inl e, st)
         | Inr st1 \<Rightarrow> (Inr (set_requires_grad True (detach loss)), st1))"

text \<open>The arguments of the forward passes of the strategies: \<open>guidance_scale=1.0\<close>.\<close>

definition guidance_args :: "tensor4 \<Rightarrow> prompt_embeds \<Rightarrow> int list \<Rightarrow> kwargs \<Rightarrow> pred_args" where
  "guidance_args lat embeds ts pred_kwargs =
     \<lparr>arg_latents = lat, conditional_embeddings = embeds, unconditional_embeddings = None,
      timestep = ts, guidance_scale = 1, rescale_cfg = None, residuals = pred_kwargs\<rparr>"

text \<open>\<open>sd.network.is_active = flag\<close>; it raises when there is no network.\<close>

definition set_network_active :: "bool \<Rightarrow> trainer \<Rightarrow> error + trainer" where
  "set_network_active flag st =
     (case network st of
        None \<Rightarrow> Inl AttributeError
      | Some n \<Rightarrow> Inr (st\<lparr>network := Some (n\<lparr>is_active := flag\<rparr>)\<rparr>))"

definition set_network_multiplier :: "real list \<Rightarrow> trainer \<Rightarrow> error + trainer" where
  "set_network_multiplier ws st =
     (case network st of
        None \<Rightarrow> Inl AttributeError
      | Some n \<Rightarrow> Inr (st\<lparr>network := Some (n\<lparr>multiplier := ws\<rparr>)\<rparr>))"

text \<open>
  Lines 341-345 of guidance.py and their copies: \<open>unet.train()\<close>, the network is switched
  on and its multiplier is set.
\<close>

definition activate_network :: "real list \<Rightarrow> trainer \<Rightarrow> error + trainer" where
  "activate_network ws st =
     (case set_network_active True (st\<lparr>unet_training := True\<rparr>) of
        Inl e \<Rightarrow> Inl e
      | Inr st1 \<Rightarrow> set_network_multiplier ws st1)"

text \<open>guidance.py, lines 300-381.\<close>

definition get_guided_loss_polarity ::
  "stable_diffusion \<Rightarrow> trainer \<Rightarrow> prompt_embeds \<Rightarrow> real list \<Rightarrow> int list \<Rightarrow> kwargs \<Rightarrow> batch
     \<Rightarrow> tensor4 \<Rightarrow> (error + scalar) \<times> trainer" where
  "get_guided_loss_polarity sd st conditional_embeds network_weight_list timesteps pred_kwargs b noise =
     (case unconditional_latents b of
        None \<Rightarrow> (Inl AttributeError, st)
      | Some unconditional \<Rightarrow>
          (let conditional_latents = latents b;
               conditional_noisy_latents = add_noise sd conditional_latents noise timesteps;
               unconditional_noisy_latents = add_noise sd unconditional noise timesteps;
               cat_embeds = conditional_embeds @ conditional_embeds;
               cat_latents = conditional_noisy_latents @ unconditional_noisy_latents;
               cat_timesteps = timesteps @ timesteps;
               negative_network_weights = map (\<lambda>weight. weight * (- 1)) network_weight_list;
               positive_network_weights = map (\<lambda>weight. weight * 1) network_weight_list;
               cat_network_weight_list = positive_network_weights @ negative_network_weights
           in
           case activate_network cat_network_weight_list st of
             Inl e \<Rightarrow> (Inl e, st\<lparr>unet_training := True\<rparr>)
           | Inr st1 \<Rightarrow>
               (case forward sd True (guidance_args cat_latents cat_embeds cat_timesteps pred_kwargs) st1 of
                  (Inl e, st2) \<Rightarrow> (Inl e, st2)
                | (Inr prediction, st2) \<Rightarrow>
                    (case chunk2 prediction of
                       Inl e \<Rightarrow> (Inl e, st2)
                     | Inr (pred_pos, pred_neg) \<Rightarrow>
                         (let pred_loss = mean123 (mse_loss pred_pos noise);
                              pred_neg_loss = mean123 (mse_loss pred_neg noise);
                              loss = bzip (+) pred_loss pred_neg_loss
                          in backward_and_detach (mean loss) st2)))))"

text \<open>guidance.py, lines 55-184.\<close>

definition get_targeted_polarity_loss ::
  "stable_diffusion \<Rightarrow> trainer \<Rightarrow> prompt_embeds \<Rightarrow> real list \<Rightarrow> int list \<Rightarrow> kwargs \<Rightarrow> batch
     \<Rightarrow> tensor4 \<Rightarrow> (error + scalar) \<times> trainer" where
  "get_targeted_polarity_loss sd st conditional_embeds network_weight_list timesteps pred_kwargs b noise =
     (case unconditional_latents b of
        None \<Rightarrow> (Inl AttributeError, st)
      | Some unconditional \<Rightarrow>
          (let conditional_latents = latents b;
               differential_scaler = 2 / 10;
               unconditional_diff = t4 (-) unconditional conditional_latents;
               unconditional_diff_noise = tmap (\<lambda>x. x * differential_scaler) unconditional_diff;
               conditional_diff = t4 (-) conditional_latents unconditional;
               conditional_diff_noise = tmap (\<lambda>x. x * differential_scaler) conditional_diff;
               conditional_noise = t4 (+) noise unconditional_diff_noise;
               unconditional_noise = t4 (+) noise conditional_diff_noise;
               conditional_noisy_latents = add_noise sd conditional_latents conditional_noise timesteps;
               unconditional_noisy_latents = add_noise sd unconditional unconditional_noise timesteps;
               cat_embeds = conditional_embeds @ conditional_embeds;
               cat_latents = conditional_noisy_latents @ unconditional_noisy_latents;
               cat_timesteps = timesteps @ timesteps
           in
           case set_network_active False st of
             Inl e \<Rightarrow> (Inl e, st)
           | Inr st0 \<Rightarrow>
               (let negative_network_weights = map (\<lambda>weight. weight * (- 1)) network_weight_list;
                    positive_network_weights = map (\<lambda>weight. weight * 1) network_weight_list;
                    cat_network_weight_list = positive_network_weights @ negative_network_weights
                in
                case activate_network cat_network_weight_list (st0\<lparr>unet_training := False\<rparr>) of
                  Inl e \<Rightarrow> (Inl e, st0\<lparr>unet_training := True\<rparr>)
                | Inr st1 \<Rightarrow>
                    (case forward sd True
                            (guidance_args cat_latents cat_embeds cat_timesteps pred_kwargs) st1 of
                       (Inl e, st2) \<Rightarrow> (Inl e, st2)
                     | (Inr prediction, st2) \<Rightarrow>
                         (case chunk2 prediction of
                            Inl e \<Rightarrow> (Inl e, st2)
                          | Inr (pred_pos, pred_neg) \<Rightarrow>
                              (let pred_loss = mean123 (mse_loss pred_pos conditional_noise);
                                   pred_neg_loss = mean123 (mse_loss pred_neg unconditional_noise);
                                   loss = bzip (+) pred_loss pred_neg_loss
                               in backward_and_detach (mean loss) st2))))))"

text \<open>guidance.py, lines 188-297.\<close>

definition get_targeted_guidance_loss ::
  "stable_diffusion \<Rightarrow> trainer \<Rightarrow> prompt_embeds \<Rightarrow> real list \<Rightarrow> int list \<Rightarrow> kwargs \<Rightarrow> batch
     \<Rightarrow> tensor4 \<Rightarrow> (error + scalar) \<times> trainer" where
  "get_targeted_guidance_loss sd st conditional_embeds network_weight_list timesteps pred_kwargs b noise =
     (case unconditional_latents b of
        None \<Rightarrow> (Inl AttributeError, st)
      | Some unconditional \<Rightarrow>
          (let conditional_latents = latents b;
               unconditional_diff = t4 (-) unconditional conditional_latents;
               unconditional_diff_noise =
                 add_noise sd (tmap (\<lambda>x. 0) unconditional) unconditional_diff timesteps;
               target_noise = t4 (+) noise unconditional_diff_noise;
               noisy_latents = add_noise sd conditional_latents target_noise timesteps
           in
           case set_network_active False st of
             Inl e \<Rightarrow> (Inl e, st)
           | Inr st0 \<Rightarrow>
               (case forward sd False
                       (guidance_args noisy_latents conditional_embeds timesteps pred_kwargs)
                       (st0\<lparr>unet_training := False\<rparr>) of
                  (Inl e, st1) \<Rightarrow> (Inl e, st1)
                | (Inr baseline_prediction, st1) \<Rightarrow>
                    (let baseline_prediction_error = t4 (-) baseline_prediction noise;
                         prediction_target = t4 (+) baseline_prediction_error unconditional_diff_noise
                     in
                     case activate_network network_weight_list st1 of
                       Inl e \<Rightarrow> (Inl e, st1\<lparr>unet_training := True\<rparr>)
                     | Inr st2 \<Rightarrow>
                         (case forward sd True
                                 (guidance_args noisy_latents conditional_embeds timesteps pred_kwargs)
                                 st2 of
                            (Inl e, st3) \<Rightarrow> (Inl e, st3)
                          | (Inr prediction, st3) \<Rightarrow>
                              (let prediction_error = t4 (-) prediction noise;
                                   guidance_loss =
                                     mean123 (mse_loss prediction_error prediction_target)
                               in backward_and_detach (mean guidance_loss) st3))))))"

text \<open>guidance.py, lines 385-441: the strategy is chosen by the guidance type of the batch.\<close>

definition get_guidance_loss ::
  "stable_diffusion \<Rightarrow> trainer \<Rightarrow> prompt_embeds \<Rightarrow> real list \<Rightarrow> int list \<Rightarrow> kwargs \<Rightarrow> batch
     \<Rightarrow> tensor4 \<Rightarrow> (error + scalar) \<times> trainer" where
  "get_guidance_loss sd st conditional_embeds network_weight_list timesteps pred_kwargs b noise =
     (if guidance_type b = ''targeted'' then
        get_targeted_guidance_loss sd st conditional_embeds network_weight_list timesteps
          pred_kwargs b noise
      else if guidance_type b = ''polarity'' then
        get_guided_loss_polarity sd st conditional_embeds network_weight_list timesteps
          pred_kwargs b noise
      else if guidance_type b = ''targeted_polarity'' then
        get_targeted_polarity_loss sd st conditional_embeds network_weight_list timesteps
          pred_kwargs b noise
      else (Inl NotImplementedError, st))"

text \<open>
  SDTrainer.py, lines 486-601: the method \<open>get_guided_loss_targeted_polarity\<close> of the
  trainer, with the same ending.
\<close>

definition get_guided_loss_targeted_polarity ::
  "stable_diffusion \<Rightarrow> trainer \<Rightarrow> prompt_embeds \<Rightarrow> real list \<Rightarrow> int list \<Rightarrow> kwargs \<Rightarrow> batch
     \<Rightarrow> tensor4 \<Rightarrow> (error + scalar) \<times> trainer" where
  "get_guided_loss_targeted_polarity sd st conditional_embeds network_weight_list timesteps pred_kwargs b noise =
     (case unconditional_latents b of
        None \<Rightarrow> (Inl AttributeError, st)
      | Some unconditional \<Rightarrow>
          (let conditional_latents = latents b;
               mean_latents = tmap (\<lambda>x. x / 2) (t4 (+) conditional_latents unconditional);
               unconditional_diff = t4 (-) unconditional mean_latents;
               conditional_diff = t4 (-) conditional_latents mean_latents;
               conditional_noisy_latents = add_noise sd mean_latents noise timesteps;
               unconditional_noisy_latents = add_noise sd mean_latents noise timesteps
           in
           case set_network_active False st of
             Inl e \<Rightarrow> (Inl e, st)
           | Inr st0 \<Rightarrow>
               (case forward sd False
                       (guidance_args unconditional_noisy_latents conditional_embeds timesteps
                          pred_kwargs)
                       (st0\<lparr>unet_training := False\<rparr>) of
                  (Inl e, st1) \<Rightarrow> (Inl e, st1)
                | (Inr baseline_prediction, st1) \<Rightarrow>
                    (let cat_embeds = conditional_embeds @ conditional_embeds;
                         cat_latents = conditional_noisy_latents @ conditional_noisy_latents;
                         cat_timesteps = timesteps @ timesteps;
                         negative_network_weights = map (\<lambda>weight. weight * (- 2)) network_weight_list;
                         positive_network_weights = map (\<lambda>weight. weight * 2) network_weight_list;
                         cat_network_weight_list = positive_network_weights @ negative_network_weights
                     in
                     case activate_network cat_network_weight_list st1 of
                       Inl e \<Rightarrow> (Inl e, st1\<lparr>unet_training := True\<rparr>)
                     | Inr st2 \<Rightarrow>
                         (case forward sd True
                                 (guidance_args cat_latents cat_embeds cat_timesteps pred_kwargs)
                                 st2 of
                            (Inl e, st3) \<Rightarrow> (Inl e, st3)
                          | (Inr prediction, st3) \<Rightarrow>
                              (case chunk2 prediction of
                                 Inl e \<Rightarrow> (Inl e, st3)
                               | Inr (pred_pos0, pred_neg0) \<Rightarrow>
                                   (let pred_pos = t4 (-) pred_pos0 baseline_prediction;
                                        pred_neg = t4 (-) pred_neg0 baseline_prediction;
                                        pred_loss = mean123 (mse_loss pred_pos unconditional_diff);
                                        pred_neg_loss = mean123 (mse_loss pred_neg conditional_diff);
                                        loss = map (\<lambda>x. x / 2) (bzip (+) pred_loss pred_neg_loss)
                                    in backward_and_detach (mean loss) st3)))))))"

section \<open>The training step (SDTrainer.hook_train_loop)\<close>

text \<open>
  Lines 936-942: the loss multiplier of the step, of shape \<open>(batch, 1, 1, 1)\<close>: one for
  every item, times \<open>reg_weight\<close> for a regularization item.  Only its mean is used, so it
  is kept as the list of its entries; \<open>is_regs\<close> are the \<open>is_reg\<close> flags of the file items.
\<close>

definition step_loss_multiplier :: "train_config \<Rightarrow> bool list \<Rightarrow> real list" where
  "step_loss_multiplier cfg is_regs =
     map (\<lambda>is_reg. if is_reg then 1 * reg_weight cfg else 1) is_regs"

text \<open>
  Lines 967-978: the mask multiplier is a tensor of ones of shape \<open>(batch, 1, 1, 1)\<close>, or
  the mask of the batch resized to the latents (\<open>interpolate\<close>, a collaborator) and
  expanded over their channels.  \<open>expand\<close> raises when a mask has neither one channel nor
  as many as the latents.
\<close>

definition expand_channels :: "tensor4 \<Rightarrow> tensor4 \<Rightarrow> error + tensor4" where
  "expand_channels m noisy_latents =
     (if list_all2 (\<lambda>mi xi. length mi = 1 \<or> length mi = length xi) m noisy_latents
        then Inr (map2 (\<lambda>mi xi. if length mi = 1 then replicate (length xi) (hd mi) else mi)
                    m noisy_latents)
      else Inl RuntimeError)"

definition get_mask_multiplier :: "stable_diffusion \<Rightarrow> batch \<Rightarrow> tensor4 \<Rightarrow> error + tensor4" where
  "get_mask_multiplier sd b noisy_latents =
     (case mask_tensor b of
        None \<Rightarrow> Inr (map (\<lambda>item. [[[1]]]) noisy_latents)
      | Some m \<Rightarrow> expand_channels (interpolate sd m noisy_latents) noisy_latents)"

text \<open>
  Lines 1474-1490, run once for every sub-batch: a NaN loss is replaced, the loss is
  multiplied by the mean of the step's loss multiplier, and \<open>loss.backward()\<close> is called.
\<close>

definition backward_step :: "train_config \<Rightarrow> bool list \<Rightarrow> scalar \<Rightarrow> trainer \<Rightarrow> error + (scalar \<times> trainer)" where
  "backward_step cfg is_regs loss0 st =
     (let loss1 = (if isnan loss0 then set_requires_grad True (zeros_like loss0) else loss0);
          loss = scalar_mul loss1 (mean (step_loss_multiplier cfg is_regs))
      in case backward loss st of
           Inl e \<Rightarrow> Inl e
         | Inr st1 \<Rightarrow> Inr (loss, st1))"

text \<open>
  Lines 1495-1536, after the loop: gradient clipping and the optimizer step unless the
  step accumulates gradients, the scheduler step, the restoring of embeddings, and the
  value of \<open>loss_dict['loss']\<close>.
\<close>

definition finish_step :: "scalar \<Rightarrow> trainer \<Rightarrow> fval \<times> trainer" where
  "finish_step loss st =
     (let tr1 = (if \<not> is_grad_accumulation_step st
                   then trace st @ [ClipGradNorm, OptimizerStep, ZeroGrad]
                 else trace st);
          tr2 = tr1 @ [SchedulerStep];
          tr3 = (if embedding st then tr2 @ [RestoreEmbeddings] else tr2);
          tr4 = (case adapter st of
                   None \<Rightarrow> tr3
                 | Some a \<Rightarrow>
                     (if kind a = ClipVisionAdapter then tr3 @ [RestoreAdapterEmbeddings] else tr3))
      in (val loss, st\<lparr>trace := tr4\<rparr>))"

text \<open>
  The step from the point where the losses of its sub-batches are known (one loss, or one
  per item under \<open>single_item_batching\<close>): \<open>backward_step\<close> for each of them in turn, then
  \<open>finish_step\<close> with the last one.  Without any sub-batch the name \<open>loss\<close> is unbound
  after the loop.
\<close>

fun backward_steps ::
  "train_config \<Rightarrow> bool list \<Rightarrow> scalar list \<Rightarrow> scalar option \<Rightarrow> trainer
     \<Rightarrow> error + (scalar option \<times> trainer)" where
  "backward_steps cfg is_regs [] prev st = Inr (prev, st)"
| "backward_steps cfg is_regs (loss # losses) prev st =
     (case backward_step cfg is_regs loss st of
        Inl e \<Rightarrow> Inl e
      | Inr (loss1, st1) \<Rightarrow> backward_steps cfg is_regs losses (Some loss1) st1)"

definition hook_train_loop_tail ::
  "train_config \<Rightarrow> bool list \<Rightarrow> scalar list \<Rightarrow> trainer \<Rightarrow> error + (fval \<times> trainer)" where
  "hook_train_loop_tail cfg is_regs losses st =
     (case backward_steps cfg is_regs losses None st of
        Inl e \<Rightarrow> Inl e
      | Inr (None, st1) \<Rightarrow> Inl UnboundLocalError
      | Inr (Some loss, st1) \<Rightarrow> Inr (finish_step loss st1))"

section \<open>The specification's formulations\<close>



text \<open>
  Follows the specification's words (4.2, step 3b): the masked blend of the noise and the
  prior prediction, the noise weighted by the mask and the prior prediction by its
  complement (the formula left as a comment on line 315 of SDTrainer.py).
\<close>

definition spec_masked_blend :: "tensor4 \<Rightarrow> tensor4 \<Rightarrow> tensor4 \<Rightarrow> tensor4" where
  "spec_masked_blend noise prior mask_multiplier =
     t4 (+) (t4 (*) noise mask_multiplier) (t4 (*) prior (tmap (\<lambda>m. 1 - m) mask_multiplier))"

section \<open>Concrete inputs\<close>

text \<open>
  A configuration with every optional stage off, a batch around given latents without
  mask, regularization items or unconditional latents, and a stand-in for the model
  service: its forward pass predicts zero noise, adding noise is addition, and the other
  collaborators return their input.  They serve to evaluate the definitions.
\<close>

definition plain_config :: train_config where
  "plain_config =
     \<lparr>loss_target = ''noise'', match_noise_norm = False, pred_scaler = 1,
      correct_pred_norm = False, correct_pred_norm_multiplier = 1,
      inverted_mask_prior = False, inverted_mask_prior_multiplier = 1 / 2,
      do_prior_divergence = False, train_turbo = False, loss_type = ''mse'',
      learnable_snr_gos = False, snr_gamma = None, min_snr_gamma = None,
      latent_multiplier = 1, cfg_scale = 1, cfg_rescale = False, reg_weight = 1\<rparr>"

definition plain_batch :: "tensor4 \<Rightarrow> batch" where
  "plain_batch x =
     \<lparr>caption_list = map (\<lambda>item. ''a photo'') x, is_reg_list = map (\<lambda>item. False) x,
      loss_multiplier_list = map (\<lambda>item. 1) x, mask_tensor = None, mask_min_value = 0,
      sigmas = None, latents = x, unconditional_latents = None, tensor = None,
      unaugmented_tensor = None, guidance_type = ''polarity''\<rparr>"

definition zero_model :: stable_diffusion where
  "zero_model =
     \<lparr>prediction_type = ''epsilon'', scheduler_prediction_type = ''epsilon'', is_v3 = False,
      predict_noise = (\<lambda>call. Inr (tmap (\<lambda>x. 0) (arg_latents (call_args call)))),
      encode_prompt = (\<lambda>prompts. Inr (map (\<lambda>p. [[0]]) prompts)),
      add_noise = (\<lambda>x n ts. t4 (+) x n),
      encode_images = (\<lambda>x. x),
      get_velocity = (\<lambda>x n ts. n),
      process_output_for_turbo = (\<lambda>p x ts n b. (p, n)),
      interpolate = (\<lambda>m x. m),
      apply_learnable_snr_gos = (\<lambda>l ts. l),
      apply_snr_weight = (\<lambda>l ts g fixed. l)\<rparr>"

text \<open>The same service with a forward pass that raises.\<close>

definition failing_model :: stable_diffusion where
  "failing_model = zero_model\<lparr>predict_noise := (\<lambda>call. Inl CollaboratorError)\<rparr>"

text \<open>A trainer with an active network of multiplier 1 and an active IP adapter.\<close>

definition plain_trainer :: trainer where
  "plain_trainer =
     \<lparr>network = Some \<lparr>is_active = True, multiplier = [1]\<rparr>,
      adapter = Some \<lparr>is_active = True, kind = IPAdapter, additional_loss = None\<rparr>,
      embedding = False, the_embed_config = None,
      the_adapter_config = Some \<lparr>trigger = ''tok'', trigger_class_name = None, num_tokens = 0\<rparr>,
      unet_training = True, is_grad_accumulation_step = False, trace = []\<rparr>"

text \<open>
  A batch of one item with unconditional latents, for the guidance strategies, and the
  forward pass that the polarity strategy issues on it with noise 1 and network weight 1.
\<close>

definition guidance_batch :: batch where
  "guidance_batch = (plain_batch [[[[0]]]])\<lparr>unconditional_latents := Some [[[[0]]]]\<rparr>"

definition polarity_call :: forward_call where
  "polarity_call =
     \<lparr>grad_enabled = True,
      call_network = Some \<lparr>is_active = True, multiplier = [1, - 1]\<rparr>,
      call_adapter = adapter plain_trainer, call_unet_training = True,
      call_args = guidance_args [[[[1]]], [[[1]]]] [[[0]], [[0]]] [500, 500] []\<rparr>"

section \<open>Properties of the timestep sampler\<close>

lemma clamp_strict:
  "lo + 2 \<le> hi \<Longrightarrow> lo < clamp (lo + 1) (hi - 1) x \<and> clamp (lo + 1) (hi - 1) x < hi"
  by (auto simp: clamp_def)

lemma clamp_mono: "x \<le> y \<Longrightarrow> clamp lo hi x \<le> clamp lo hi y"
  by (auto simp: clamp_def)

lemma randint_Inr:
  "lo < hi \<Longrightarrow> randint lo hi raws = Inr (map (\<lambda>k. lo + int k mod (hi - lo)) raws)"
  by (simp add: randint_def)

lemma randint_elem:
  assumes "lo < hi"
  shows "lo \<le> lo + int k mod (hi - lo) \<and> lo + int k mod (hi - lo) < hi"
proof -
  have "0 \<le> int k mod (hi - lo)" and "int k mod (hi - lo) < hi - lo"
    using assms by simp_all
  then show ?thesis by linarith
qed

lemma long_mono:
  assumes xy: "x \<le> y"
  shows "long x \<le> long y"
proof (cases "0 \<le> x")
  case True
  then have "0 \<le> y" using xy by simp
  then show ?thesis using True xy by (simp add: long_def floor_mono)
next
  case False
  then have cx: "\<lceil>x\<rceil> \<le> 0" by (simp add: ceiling_le_iff)
  show ?thesis
  proof (cases "0 \<le> y")
    case True
    then have fy: "0 \<le> \<lfloor>y\<rfloor>" by simp
    have "long x = \<lceil>x\<rceil>" and "long y = \<lfloor>y\<rfloor>"
      using False True by (simp_all add: long_def)
    then show ?thesis using cx fy by linarith
  next
    case False
    then show ?thesis using \<open>\<not> 0 \<le> x\<close> xy by (simp add: long_def ceiling_mono)
  qed
qed

lemma value_map_mono:
  "x \<le> y \<Longrightarrow> min_in < max_in \<Longrightarrow> min_out \<le> max_out \<Longrightarrow>
     value_map x min_in max_in min_out max_out \<le> value_map y min_in max_in min_out max_out"
  by (simp add: value_map_def divide_right_mono mult_right_mono)

lemma cube_le_self:
  assumes "0 \<le> (u::real)" and "u \<le> 1"
  shows "u ^ 3 \<le> u"
proof -
  have "u ^ 3 = u * u ^ 2" by (simp add: power3_eq_cube power2_eq_square)
  also have "\<dots> \<le> u * 1" using assms by (intro mult_left_mono) (auto simp: power_le_one)
  finally show ?thesis by simp
qed

text \<open>
  Claim C5, as the code has it.  Under the policies \<open>style\<close> and \<open>content\<close> the timesteps
  are clamped to \<open>[min + 1, max - 1]\<close>: when the range holds at least two steps, the block
  returns one timestep per draw and each lies strictly between \<open>min_denoising_steps\<close> and
  \<open>max_denoising_steps\<close>.  Under \<open>balanced\<close> nothing is clamped: \<open>torch.randint\<close> draws
  from \<open>[min, max)\<close>, so each timestep satisfies \<open>min \<le> t < max\<close>, the lower bound included.
\<close>

theorem sample_timesteps_range:
  "(content_or_style cfg \<in> {''style'', ''content''} \<longrightarrow>
      min_denoising_steps cfg + 2 \<le> max_denoising_steps cfg \<longrightarrow>
      (\<exists>ts. sample_timesteps cfg us raws = Inr ts \<and> length ts = length us \<and>
         (\<forall>t \<in> set ts. min_denoising_steps cfg < t \<and> t < max_denoising_steps cfg))) \<and>
   (content_or_style cfg = ''balanced'' \<longrightarrow>
      min_denoising_steps cfg < max_denoising_steps cfg \<longrightarrow>
      (\<exists>ts. sample_timesteps cfg us raws = Inr ts \<and> length ts = length raws \<and>
         (\<forall>t \<in> set ts. min_denoising_steps cfg \<le> t \<and> t < max_denoising_steps cfg)))"
proof (intro conjI impI)
  assume "content_or_style cfg \<in> {''style'', ''content''}"
    and "min_denoising_steps cfg + 2 \<le> max_denoising_steps cfg"
  then show "\<exists>ts. sample_timesteps cfg us raws = Inr ts \<and> length ts = length us \<and>
         (\<forall>t \<in> set ts. min_denoising_steps cfg < t \<and> t < max_denoising_steps cfg)"
    using clamp_strict [of "min_denoising_steps cfg" "max_denoising_steps cfg"]
    by (simp add: sample_timesteps_def warp_timestep_def)
next
  assume b: "content_or_style cfg = ''balanced''"
    and lt: "min_denoising_steps cfg < max_denoising_steps cfg"
  have "sample_timesteps cfg us raws
          = randint (min_denoising_steps cfg) (max_denoising_steps cfg) raws"
    using b by (simp add: sample_timesteps_def)
  then have "sample_timesteps cfg us raws
          = Inr (map (\<lambda>k. min_denoising_steps cfg
                          + int k mod (max_denoising_steps cfg - min_denoising_steps cfg)) raws)"
    using randint_Inr [OF lt] by simp
  then show "\<exists>ts. sample_timesteps cfg us raws = Inr ts \<and> length ts = length raws \<and>
         (\<forall>t \<in> set ts. min_denoising_steps cfg \<le> t \<and> t < max_denoising_steps cfg)"
    using randint_elem [OF lt] by auto
qed

text \<open>
  The theorem at a style configuration with the draws \<open>1/2\<close> and \<open>9/10\<close> and at a balanced
  configuration with the raw draws 0 and 1234.
\<close>

theorem sample_timesteps_range_witness:
  "(\<exists>ts. sample_timesteps \<lparr>content_or_style = ''style'', min_denoising_steps = 0,
            max_denoising_steps = 1000, num_train_timesteps = 1000\<rparr> [1/2, 9/10] [] = Inr ts
        \<and> length ts = 2 \<and> (\<forall>t \<in> set ts. 0 < t \<and> t < 1000)) \<and>
   (\<exists>ts. sample_timesteps \<lparr>content_or_style = ''balanced'', min_denoising_steps = 0,
            max_denoising_steps = 1000, num_train_timesteps = 1000\<rparr> [] [0, 1234] = Inr ts
        \<and> length ts = 2 \<and> (\<forall>t \<in> set ts. 0 \<le> t \<and> t < 1000))"
  using sample_timesteps_range [of "\<lparr>content_or_style = ''style'', min_denoising_steps = 0,
            max_denoising_steps = 1000, num_train_timesteps = 1000\<rparr>" "[1/2, 9/10]" "[]"]
    sample_timesteps_range [of "\<lparr>content_or_style = ''balanced'', min_denoising_steps = 0,
            max_denoising_steps = 1000, num_train_timesteps = 1000\<rparr>" "[]" "[0, 1234]"]
  by (simp add: numeral_2_eq_2)

text \<open>
  Claim C5 as stated fails for the balanced policy: with the range \<open>[0, 1000)\<close> and the raw
  draw 0 the sampled timestep is 0, which is \<open>min_denoising_steps\<close> itself.
\<close>

theorem sample_timesteps_balanced_counterexample:
  "sample_timesteps \<lparr>content_or_style = ''balanced'', min_denoising_steps = 0,
      max_denoising_steps = 1000, num_train_timesteps = 1000\<rparr> [] [0] = Inr [0]
   \<and> \<not> (min_denoising_steps \<lparr>content_or_style = ''balanced'', min_denoising_steps = 0,
      max_denoising_steps = 1000, num_train_timesteps = 1000\<rparr> < 0)"
  by (simp add: sample_timesteps_def randint_def)

lemma warp_timestep_mono:
  assumes "warp c1 u1 \<le> warp c2 u2"
    and "num_train_timesteps c1 = num_train_timesteps c2"
    and "min_denoising_steps c1 = min_denoising_steps c2"
    and "max_denoising_steps c1 = max_denoising_steps c2"
    and "2 \<le> num_train_timesteps c1"
    and "min_denoising_steps c1 \<le> max_denoising_steps c1"
  shows "warp_timestep c1 u1 \<le> warp_timestep c2 u2"
proof -
  have "value_map (warp c1 u1) 0 (real_of_int (num_train_timesteps c1 - 1))
          (real_of_int (min_denoising_steps c1)) (real_of_int (max_denoising_steps c1))
        \<le> value_map (warp c2 u2) 0 (real_of_int (num_train_timesteps c1 - 1))
          (real_of_int (min_denoising_steps c1)) (real_of_int (max_denoising_steps c1))"
    using assms(1,5,6) by (intro value_map_mono) simp_all
  then show ?thesis
    unfolding warp_timestep_def using assms(2,3,4) by (simp add: clamp_mono long_mono)
qed

text \<open>
  Claim C6, as the code has it.  For a uniform draw \<open>u\<close> in \<open>[0, 1]\<close> the style policy warps
  to \<open>u\<^sup>3 * num_train_timesteps\<close> and the content policy to \<open>(1 - u\<^sup>3) * num_train_timesteps\<close>.
  The style value lies below the unwarped \<open>u * num_train_timesteps\<close> and the content value
  of the mirrored draw \<open>1 - u\<close> lies above it.  The sampled style timestep grows with the
  draw and the content timestep falls with it, so the timestep at the draw \<open>u\<close> is the
  \<open>u\<close>-quantile for style and the timestep at \<open>1 - u\<close> is the \<open>u\<close>-quantile for content:
  quantile by quantile the style timestep is at most the content timestep.  So style
  skews toward low timesteps and content toward high ones.
\<close>

theorem warp_skew:
  assumes "0 \<le> u" and "u \<le> u'" and "u' \<le> 1" and "2 \<le> num_train_timesteps cfg"
    and "min_denoising_steps cfg \<le> max_denoising_steps cfg"
  shows "warp (cfg\<lparr>content_or_style := ''style''\<rparr>) u
           = u ^ 3 * real_of_int (num_train_timesteps cfg)
    \<and> warp (cfg\<lparr>content_or_style := ''content''\<rparr>) u
           = (1 - u ^ 3) * real_of_int (num_train_timesteps cfg)
    \<and> warp (cfg\<lparr>content_or_style := ''style''\<rparr>) u
           \<le> u * real_of_int (num_train_timesteps cfg)
    \<and> u * real_of_int (num_train_timesteps cfg)
           \<le> warp (cfg\<lparr>content_or_style := ''content''\<rparr>) (1 - u)
    \<and> warp_timestep (cfg\<lparr>content_or_style := ''style''\<rparr>) u
           \<le> warp_timestep (cfg\<lparr>content_or_style := ''style''\<rparr>) u'
    \<and> warp_timestep (cfg\<lparr>content_or_style := ''content''\<rparr>) u'
           \<le> warp_timestep (cfg\<lparr>content_or_style := ''content''\<rparr>) u
    \<and> warp_timestep (cfg\<lparr>content_or_style := ''style''\<rparr>) u
           \<le> warp_timestep (cfg\<lparr>content_or_style := ''content''\<rparr>) (1 - u)"
proof -
  let ?N = "real_of_int (num_train_timesteps cfg)"
  let ?s = "cfg\<lparr>content_or_style := ''style''\<rparr>"
  let ?c = "cfg\<lparr>content_or_style := ''content''\<rparr>"
  have u1: "u \<le> 1" using assms(2,3) by simp
  have N: "0 \<le> ?N" using assms(4) by simp
  have s: "warp ?s v = v ^ 3 * ?N" for v by (simp add: warp_def)
  have c: "warp ?c v = (1 - v ^ 3) * ?N" for v by (simp add: warp_def)
  have le1: "u ^ 3 \<le> u" using cube_le_self assms(1) u1 by simp
  have le2: "(1 - u) ^ 3 \<le> 1 - u" using cube_le_self [of "1 - u"] assms(1) u1 by simp
  have cubes: "u ^ 3 \<le> u' ^ 3" using assms(1,2) by (simp add: power_mono)
  have a: "warp ?s u \<le> u * ?N" unfolding s using le1 N by (intro mult_right_mono)
  have "u * ?N \<le> (1 - (1 - u) ^ 3) * ?N" using le2 N by (intro mult_right_mono) simp_all
  then have b: "u * ?N \<le> warp ?c (1 - u)" unfolding c .
  have ab: "warp ?s u \<le> warp ?c (1 - u)" using a b by simp
  have ss: "warp ?s u \<le> warp ?s u'" unfolding s using cubes N by (intro mult_right_mono)
  have cc: "warp ?c u' \<le> warp ?c u" unfolding c using cubes N by (intro mult_right_mono) simp_all
  have t1: "warp_timestep ?s u \<le> warp_timestep ?s u'"
    using ss assms(4,5) by (intro warp_timestep_mono) simp_all
  have t2: "warp_timestep ?c u' \<le> warp_timestep ?c u"
    using cc assms(4,5) by (intro warp_timestep_mono) simp_all
  have t3: "warp_timestep ?s u \<le> warp_timestep ?c (1 - u)"
    using ab assms(4,5) by (intro warp_timestep_mono) simp_all
  show ?thesis using s [of u] c [of u] a b t1 t2 t3 by simp
qed

text \<open>The theorem at the draws \<open>1/4\<close> and \<open>1/2\<close> of a schedule of 1000 steps.\<close>

theorem warp_skew_witness:
  "(0::real) \<le> 1/4 \<and> (1/4::real) \<le> 1/2 \<and> (1/2::real) \<le> 1 \<and> (2::int) \<le> 1000
   \<and> (0::int) \<le> 1000
   \<and> warp_timestep \<lparr>content_or_style = ''style'', min_denoising_steps = 0,
        max_denoising_steps = 1000, num_train_timesteps = 1000\<rparr> (1/4)
      \<le> warp_timestep \<lparr>content_or_style = ''style'', min_denoising_steps = 0,
        max_denoising_steps = 1000, num_train_timesteps = 1000\<rparr> (1/2)
   \<and> warp_timestep \<lparr>content_or_style = ''content'', min_denoising_steps = 0,
        max_denoising_steps = 1000, num_train_timesteps = 1000\<rparr> (1/2)
      \<le> warp_timestep \<lparr>content_or_style = ''content'', min_denoising_steps = 0,
        max_denoising_steps = 1000, num_train_timesteps = 1000\<rparr> (1/4)
   \<and> warp_timestep \<lparr>content_or_style = ''style'', min_denoising_steps = 0,
        max_denoising_steps = 1000, num_train_timesteps = 1000\<rparr> (1/4)
      \<le> warp_timestep \<lparr>content_or_style = ''content'', min_denoising_steps = 0,
        max_denoising_steps = 1000, num_train_timesteps = 1000\<rparr> (1 - 1/4)"
  using warp_skew [of "1/4" "1/2" "\<lparr>content_or_style = ''balanced'', min_denoising_steps = 0,
      max_denoising_steps = 1000, num_train_timesteps = 1000\<rparr>"]
  by simp

text \<open>
  Claim C6 as stated has the directions reversed: at the median draw \<open>1/2\<close> the style
  timestep is 125, in the lowest eighth of the schedule, and the content timestep is 875,
  in the highest eighth.
\<close>

theorem warp_skew_counterexample:
  "warp_timestep \<lparr>content_or_style = ''style'', min_denoising_steps = 0,
      max_denoising_steps = 1000, num_train_timesteps = 1000\<rparr> (1/2) = 125
   \<and> warp_timestep \<lparr>content_or_style = ''content'', min_denoising_steps = 0,
      max_denoising_steps = 1000, num_train_timesteps = 1000\<rparr> (1/2) = 875"
  by (simp add: warp_timestep_def warp_def value_map_def long_def clamp_def power3_eq_cube)

section \<open>Properties of the loss computation\<close>

lemma bzip_eq_map2: "length xs = length ys \<Longrightarrow> bzip f xs ys = map2 f xs ys"
  by (cases "(f, xs, ys)" rule: bzip.cases) (auto simp: length_Suc_conv Suc_length_conv)

lemma bzip_singleton_right: "bzip f xs [y] = map (\<lambda>x. f x y) xs"
  by (cases "(f, xs, [y])" rule: bzip.cases) auto

lemma bzip_self: "bzip f xs xs = map (\<lambda>x. f x x) xs"
  by (simp add: bzip_eq_map2 map2_map_map zip_same_conv_map)

lemma bzip_map_map:
  assumes "\<And>x y. f (a x) (b y) = c (g x y)"
  shows "bzip f (map a xs) (map b ys) = map c (bzip g xs ys)"
  using assms by (cases "(g, xs, ys)" rule: bzip.cases) (auto simp: zip_map_map)

lemma bzip_map_right: "bzip f xs (map b ys) = bzip (\<lambda>x y. f x (b y)) xs ys"
  using bzip_map_map [of f "\<lambda>x. x" b "\<lambda>x. x" "\<lambda>x y. f x (b y)" xs ys] by simp

lemma sum_list_map_div: "sum_list (map (\<lambda>x. f x / (c::real)) xs) = sum_list (map f xs) / c"
  by (induction xs) (simp_all add: add_divide_distrib)

lemma length_concat_const:
  "list_all (\<lambda>x. length x = n) xs \<Longrightarrow> length (concat xs) = length xs * n"
  by (induction xs) simp_all



lemma sum_list_concat_map:
  "sum_list (concat (map f xs)) = sum_list (map (\<lambda>x. sum_list (f x :: real list)) xs)"
  by (induction xs) simp_all

lemma concat_map_concat: "concat (map concat xs) = concat (concat xs)"
  by (induction xs) simp_all

lemma has_shape_item_length:
  assumes "has_shape B C H W t" and "item \<in> set t"
  shows "length (concat (concat item)) = C * H * W"
proof -
  from assms have c: "length item = C"
    and h: "list_all (\<lambda>ch. length ch = H \<and> list_all (\<lambda>row. length row = W) ch) item"
    by (auto simp: has_shape_def list_all_iff)
  from h have "list_all (\<lambda>ch. length ch = H) item" by (auto simp: list_all_iff)
  then have l1: "length (concat item) = C * H"
    using c length_concat_const [of H item] by simp
  from h have "list_all (\<lambda>row. length row = W) (concat item)" by (auto simp: list_all_iff)
  then show ?thesis using l1 length_concat_const [of W "concat item"] by simp
qed

lemma mean_mean123:
  assumes "has_shape B C H W t"
  shows "mean (mean123 t) = mean (flatten t)"
proof -
  let ?n = "real (C * H * W)"
  have items: "\<And>item. item \<in> set t \<Longrightarrow> length (concat (concat item)) = C * H * W"
    using has_shape_item_length [OF assms] .
  have B: "length t = B" using assms by (simp add: has_shape_def)
  have m: "mean123 t = map (\<lambda>item. sum_list (concat (concat item)) / ?n) t"
    unfolding mean123_def mean_def using items by (intro map_cong) simp_all
  have "list_all (\<lambda>x. length x = C * H * W) (map (\<lambda>item. concat (concat item)) t)"
    using items by (simp add: list_all_iff)
  then have "length (concat (map (\<lambda>item. concat (concat item)) t)) = B * (C * H * W)"
    using length_concat_const [of "C * H * W" "map (\<lambda>item. concat (concat item)) t"] B by simp
  moreover have fl: "flatten t = concat (map (\<lambda>item. concat (concat item)) t)"
  proof -
    have "concat (map (\<lambda>item. concat (concat item)) t) = concat (map concat (map concat t))"
      by (simp add: comp_def)
    also have "\<dots> = concat (concat (map concat t))" by (rule concat_map_concat)
    also have "\<dots> = concat (concat (concat t))" by (simp add: concat_map_concat)
    finally show ?thesis by (simp add: flatten_def)
  qed
  ultimately have len: "length (flatten t) = B * (C * H * W)" by simp
  have s: "sum_list (flatten t) = sum_list (map (\<lambda>item. sum_list (concat (concat item))) t)"
    unfolding fl by (simp add: sum_list_concat_map comp_def)
  show ?thesis
    unfolding m by (simp add: mean_def sum_list_map_div s len B)
qed

lemma map2_cong_zip:
  assumes "\<And>x y. (x, y) \<in> set (zip xs ys) \<Longrightarrow> f x y = g x y"
  shows "map2 f xs ys = map2 g xs ys"
  using assms by (intro map_cong) auto

lemma map2_const_right:
  "length xs = length ys \<Longrightarrow> map2 f xs (map (\<lambda>y. c) ys) = map (\<lambda>x. f x c) xs"
  by (induction xs ys rule: list_induct2) simp_all

lemma concat_map2:
  assumes "length xs = length ys"
    and "\<And>x y. (x, y) \<in> set (zip xs ys) \<Longrightarrow> length x = length y"
  shows "concat (map2 (map2 f) xs ys) = map2 f (concat xs) (concat ys)"
  using assms by (induction xs ys rule: list_induct2) simp_all

lemma has_shape_iff:
  "has_shape B C H W t \<longleftrightarrow>
     length t = B \<and> (\<forall>item \<in> set t. length item = C \<and>
       (\<forall>ch \<in> set item. length ch = H \<and> (\<forall>row \<in> set ch. length row = W)))"
  by (simp add: has_shape_def list_all_iff)

lemma t4_rect:
  assumes a: "has_shape B C H W a" and b: "has_shape B C H W b"
  shows "t4 f a b = map2 (map2 (map2 (map2 f))) a b"
proof -
  have rows: "bzip (bzip f) c d = map2 (map2 f) c d"
    if "length c = H" "length d = H" "\<forall>r \<in> set c. length r = W" "\<forall>r \<in> set d. length r = W"
    for c d
  proof -
    have "bzip (bzip f) c d = map2 (bzip f) c d" using that by (simp add: bzip_eq_map2)
    also have "\<dots> = map2 (map2 f) c d"
    proof (rule map2_cong_zip)
      fix r s assume "(r, s) \<in> set (zip c d)"
      then have "r \<in> set c" "s \<in> set d" by (auto dest: set_zip_leftD set_zip_rightD)
      then have "length r = length s" using that by simp
      then show "bzip f r s = map2 f r s" by (rule bzip_eq_map2)
    qed
    finally show ?thesis .
  qed
  have chans: "bzip (bzip (bzip f)) x y = map2 (map2 (map2 f)) x y"
    if "length x = C" "length y = C"
      "\<forall>c \<in> set x. length c = H \<and> (\<forall>r \<in> set c. length r = W)"
      "\<forall>c \<in> set y. length c = H \<and> (\<forall>r \<in> set c. length r = W)"
    for x y
  proof -
    have "bzip (bzip (bzip f)) x y = map2 (bzip (bzip f)) x y"
      using that by (simp add: bzip_eq_map2)
    also have "\<dots> = map2 (map2 (map2 f)) x y"
    proof (rule map2_cong_zip)
      fix c d assume "(c, d) \<in> set (zip x y)"
      then have "c \<in> set x" "d \<in> set y" by (auto dest: set_zip_leftD set_zip_rightD)
      then show "bzip (bzip f) c d = map2 (map2 f) c d" using that by (intro rows) auto
    qed
    finally show ?thesis .
  qed
  have "t4 f a b = map2 (bzip (bzip (bzip f))) a b"
    using a b by (simp add: t4_def bzip_eq_map2 has_shape_iff)
  also have "\<dots> = map2 (map2 (map2 (map2 f))) a b"
  proof (rule map2_cong_zip)
    fix x y assume "(x, y) \<in> set (zip a b)"
    then have "x \<in> set a" "y \<in> set b" by (auto dest: set_zip_leftD set_zip_rightD)
    then show "bzip (bzip (bzip f)) x y = map2 (map2 (map2 f)) x y"
      using a b by (intro chans) (auto simp: has_shape_iff)
  qed
  finally show ?thesis .
qed

lemma set_map2D:
  "z \<in> set (map2 g xs ys) \<Longrightarrow> \<exists>x \<in> set xs. \<exists>y \<in> set ys. z = g x y"
  by (auto dest: set_zip_leftD set_zip_rightD)

lemma has_shape_map2:
  assumes a: "has_shape B C H W a" and b: "has_shape B C H W b"
  shows "has_shape B C H W (map2 (map2 (map2 (map2 f))) a b)"
  unfolding has_shape_iff
proof (intro conjI ballI)
  show "length (map2 (map2 (map2 (map2 f))) a b) = B"
    using a b by (simp add: has_shape_iff)
next
  fix item assume "item \<in> set (map2 (map2 (map2 (map2 f))) a b)"
  from set_map2D [OF this] obtain x y where x: "x \<in> set a" and y: "y \<in> set b"
    and item: "item = map2 (map2 (map2 f)) x y"
    by blast
  have lx: "length x = C" "length y = C" using a b x y by (simp_all add: has_shape_iff)
  then show "length item = C" by (simp add: item)
  fix ch assume "ch \<in> set item"
  then have "ch \<in> set (map2 (map2 (map2 f)) x y)" by (simp only: item)
  from set_map2D [OF this] obtain c d where c: "c \<in> set x" and d: "d \<in> set y"
    and ch: "ch = map2 (map2 f) c d"
    by blast
  have lc: "length c = H" "length d = H" using a b x y c d by (simp_all add: has_shape_iff)
  then show "length ch = H" by (simp add: ch)
  fix row assume "row \<in> set ch"
  then have "row \<in> set (map2 (map2 f) c d)" by (simp only: ch)
  from set_map2D [OF this] obtain r s where r: "r \<in> set c" and s: "s \<in> set d"
    and row: "row = map2 f r s"
    by blast
  have "length r = W" "length s = W" using a b x y c d r s by (simp_all add: has_shape_iff)
  then show "length row = W" by (simp add: row)
qed

lemma has_shape_lengths:
  assumes "has_shape B C H W t"
  shows "length (concat t) = B * C"
    and "\<forall>ch \<in> set (concat t). length ch = H \<and> (\<forall>row \<in> set ch. length row = W)"
    and "length (concat (concat t)) = B * C * H"
    and "\<forall>row \<in> set (concat (concat t)). length row = W"
proof -
  show 1: "length (concat t) = B * C"
    using assms length_concat_const [of C t] by (simp add: has_shape_iff list_all_iff)
  show 2: "\<forall>ch \<in> set (concat t). length ch = H \<and> (\<forall>row \<in> set ch. length row = W)"
    using assms by (auto simp: has_shape_iff)
  show "length (concat (concat t)) = B * C * H"
    using 1 2 length_concat_const [of H "concat t"] by (simp add: list_all_iff)
  show "\<forall>row \<in> set (concat (concat t)). length row = W"
    using 2 by auto
qed

lemma flatten_map2:
  assumes a: "has_shape B C H W a" and b: "has_shape B C H W b"
  shows "flatten (map2 (map2 (map2 (map2 f))) a b) = map2 f (flatten a) (flatten b)"
proof -
  note la = has_shape_lengths [OF a] and lb = has_shape_lengths [OF b]
  have "concat (map2 (map2 (map2 (map2 f))) a b)
          = map2 (map2 (map2 f)) (concat a) (concat b)"
  proof (rule concat_map2)
    show "length a = length b" using a b by (simp add: has_shape_iff)
    fix x y assume "(x, y) \<in> set (zip a b)"
    then have "x \<in> set a" "y \<in> set b" by (auto dest: set_zip_leftD set_zip_rightD)
    then show "length x = length y" using a b by (simp add: has_shape_iff)
  qed
  moreover have "concat (map2 (map2 (map2 f)) (concat a) (concat b))
          = map2 (map2 f) (concat (concat a)) (concat (concat b))"
  proof (rule concat_map2)
    show "length (concat a) = length (concat b)" using la(1) lb(1) by simp
    fix x y assume "(x, y) \<in> set (zip (concat a) (concat b))"
    then have "x \<in> set (concat a)" "y \<in> set (concat b)"
      by (auto dest: set_zip_leftD set_zip_rightD)
    then have "length x = H" "length y = H" using la(2) lb(2) by blast+
    then show "length x = length y" by simp
  qed
  moreover have "concat (map2 (map2 f) (concat (concat a)) (concat (concat b)))
          = map2 f (concat (concat (concat a))) (concat (concat (concat b)))"
  proof (rule concat_map2)
    show "length (concat (concat a)) = length (concat (concat b))" using la(3) lb(3) by simp
    fix x y assume "(x, y) \<in> set (zip (concat (concat a)) (concat (concat b)))"
    then have "x \<in> set (concat (concat a))" "y \<in> set (concat (concat b))"
      by (auto dest: set_zip_leftD set_zip_rightD)
    then have "length x = W" "length y = W" using la(4) lb(4) by blast+
    then show "length x = length y" by simp
  qed
  ultimately show ?thesis by (simp add: flatten_def)
qed

lemma t4_ones_mask:
  assumes "length loss = length noisy_latents"
  shows "t4 (*) loss (map (\<lambda>item. [[[1]]]) noisy_latents) = loss"
proof -
  have "t4 (*) loss (map (\<lambda>item. [[[1]]]) noisy_latents)
          = map2 (bzip (bzip (bzip (*)))) loss (map (\<lambda>item. [[[1]]]) noisy_latents)"
    using assms by (simp add: t4_def bzip_eq_map2)
  also have "\<dots> = map (\<lambda>x. bzip (bzip (bzip (*))) x [[[1]]]) loss"
    using assms by (rule map2_const_right)
  also have "\<dots> = map (\<lambda>x. x) loss"
    by (intro map_cong refl) (simp add: bzip_singleton_right)
  finally show ?thesis by simp
qed





lemma t4_tmap_right: "t4 f a (tmap g b) = t4 (\<lambda>x y. f x (g y)) a b"
  by (simp add: t4_def tmap_def bzip_map_right)

lemma mse_loss_self: "mse_loss p p = tmap (\<lambda>x. 0) p"
  by (simp add: mse_loss_def t4_def tmap_def bzip_self)

lemma map2_fst:
  assumes "length xs = length ys"
    and "\<And>x y. (x, y) \<in> set (zip xs ys) \<Longrightarrow> g x y = x"
  shows "map2 g xs ys = xs"
  using assms by (induction xs ys rule: list_induct2) simp_all

lemma t4_fst:
  assumes a: "has_shape B C H W a" and b: "has_shape B C H W b"
  shows "t4 (\<lambda>x y. x) a b = a"
proof -
  have rows: "map2 (map2 (\<lambda>x y. x)) c d = c"
    if "length c = length d" "\<forall>r \<in> set c. length r = W" "\<forall>r \<in> set d. length r = W" for c d :: "real list list"
  proof (rule map2_fst [OF that(1)])
    fix r s assume "(r, s) \<in> set (zip c d)"
    then have "r \<in> set c" "s \<in> set d" by (auto dest: set_zip_leftD set_zip_rightD)
    then have "length r = length s" using that by simp
    then show "map2 (\<lambda>x y. x) r s = r" by (rule map2_fst) simp
  qed
  have chans: "map2 (map2 (map2 (\<lambda>x y. x))) x y = x"
    if "length x = length y"
      "\<forall>c \<in> set x. length c = H \<and> (\<forall>r \<in> set c. length r = W)"
      "\<forall>c \<in> set y. length c = H \<and> (\<forall>r \<in> set c. length r = W)"
    for x y :: "real list list list"
  proof (rule map2_fst [OF that(1)])
    fix c d assume "(c, d) \<in> set (zip x y)"
    then have "c \<in> set x" "d \<in> set y" by (auto dest: set_zip_leftD set_zip_rightD)
    then show "map2 (map2 (\<lambda>x y. x)) c d = c" using that by (intro rows) auto
  qed
  have "map2 (map2 (map2 (map2 (\<lambda>x y. x)))) a b = a"
  proof (rule map2_fst)
    show "length a = length b" using a b by (simp add: has_shape_iff)
    fix x y assume "(x, y) \<in> set (zip a b)"
    then have "x \<in> set a" "y \<in> set b" by (auto dest: set_zip_leftD set_zip_rightD)
    then show "map2 (map2 (map2 (\<lambda>x y. x))) x y = x"
      using a b by (intro chans) (auto simp: has_shape_iff)
  qed
  then show ?thesis using t4_rect [OF a b] by simp
qed

text \<open>
  Claim C9, as the code has it.  With prior divergence enabled and a prior prediction, the
  unreduced loss becomes the base loss minus the squared error between prediction and prior
  prediction, entry by entry.  For a prediction equal to the prior prediction that squared
  error is zero everywhere, and the unreduced loss stays the base loss: the subtraction
  does not decrease it.
\<close>

theorem prior_divergence_subtracts:
  assumes "do_prior_divergence cfg"
  shows "prior_divergence cfg loss pred (Some prior) = t4 (-) loss (mse_loss pred prior)
    \<and> mse_loss prior prior = tmap (\<lambda>x. 0) prior
    \<and> (has_shape B C H W loss \<and> has_shape B C H W prior
         \<longrightarrow> prior_divergence cfg loss prior (Some prior) = loss)"
proof (intro conjI impI)
  show s: "prior_divergence cfg loss pred (Some prior) = t4 (-) loss (mse_loss pred prior)" for pred
    using assms by (simp add: prior_divergence_def t4_tmap_right)
  show z: "mse_loss prior prior = tmap (\<lambda>x. 0) prior" by (rule mse_loss_self)
  assume sh: "has_shape B C H W loss \<and> has_shape B C H W prior"
  have "prior_divergence cfg loss prior (Some prior) = t4 (-) loss (tmap (\<lambda>x. 0) prior)"
    using s [of prior] z by simp
  also have "\<dots> = t4 (\<lambda>x y. x) loss prior" by (simp add: t4_tmap_right)
  also have "\<dots> = loss" using sh t4_fst by blast
  finally show "prior_divergence cfg loss prior (Some prior) = loss" .
qed

text \<open>The theorem on tensors of shape \<open>(1, 1, 1, 1)\<close>.\<close>

theorem prior_divergence_subtracts_witness:
  "prior_divergence (plain_config\<lparr>do_prior_divergence := True\<rparr>) [[[[1]]]] [[[[0]]]] (Some [[[[0]]]])
     = t4 (-) [[[[1]]]] (mse_loss [[[[0]]]] [[[[0]]]])
   \<and> mse_loss [[[[0]]]] [[[[0]]]] = tmap (\<lambda>x. 0) [[[[0]]]]
   \<and> prior_divergence (plain_config\<lparr>do_prior_divergence := True\<rparr>) [[[[1]]]] [[[[0]]]] (Some [[[[0]]]])
     = [[[[1]]]]"
  using prior_divergence_subtracts [where cfg = "plain_config\<lparr>do_prior_divergence := True\<rparr>"
      and loss = "[[[[1]]]]" and pred = "[[[[0]]]]" and prior = "[[[[0]]]]"
      and B = 1 and C = 1 and H = 1 and W = 1]
  by (simp add: plain_config_def has_shape_def t4_def tmap_def mse_loss_def)

text \<open>
  Claim C9 as stated fails.  With prediction and prior prediction both 0 and noise 1,
  \<open>calculate_loss\<close> gives 1 with prior divergence enabled and 0 with it disabled (then the
  prior prediction itself is the target): enabling it does not decrease the loss.  The
  subtraction alone leaves the unreduced loss 1 unchanged.
\<close>

theorem prior_divergence_counterexample:
  "calculate_loss (plain_config\<lparr>do_prior_divergence := True\<rparr>) zero_model None
       [[[[0]]]] [[[[1]]]] [[[[1]]]] [500] (plain_batch [[[[0]]]]) [[[[1]]]] (Some [[[[0]]]])
     = Inr (1, None)
   \<and> calculate_loss plain_config zero_model None
       [[[[0]]]] [[[[1]]]] [[[[1]]]] [500] (plain_batch [[[[0]]]]) [[[[1]]]] (Some [[[[0]]]])
     = Inr (0, None)
   \<and> prior_divergence (plain_config\<lparr>do_prior_divergence := True\<rparr>) [[[[1]]]] [[[[0]]]]
       (Some [[[[0]]]]) = [[[[1]]]]"
  by (simp add: calculate_loss_def scale_prediction_def select_target_def elementwise_loss_def
      prior_divergence_def inverted_mask_prior_loss_def apply_mask_and_multiplier_def
      masked_loss_def
      snr_reweight_def plain_config_def plain_batch_def zero_model_def mse_loss_def t4_def
      tmap_def mean123_def mean_def)

lemma mean_replicate_one: "0 < B \<Longrightarrow> mean (replicate B 1) = 1"
  by (simp add: mean_def sum_list_replicate)

lemma bzip_replicate_one:
  assumes "length xs = B"
  shows "bzip (*) xs (replicate B (1::real)) = xs"
proof -
  have "replicate B (1::real) = map (\<lambda>x. 1) xs" using assms by (simp add: map_replicate_const)
  then have "bzip (*) xs (replicate B (1::real)) = map2 (*) xs (map (\<lambda>x. 1) xs)"
    using assms by (simp add: bzip_eq_map2)
  also have "\<dots> = map (\<lambda>x. x * 1) xs" by (rule map2_const_right) simp
  finally show ?thesis by simp
qed

lemma plain_items:
  assumes np: "has_shape B C H W noise_pred" and n: "has_shape B C H W noise"
    and nl: "length noisy_latents = B"
  shows "mean (apply_mask_and_multiplier (mse_loss noise_pred noise)
            (map (\<lambda>item. [[[1]]]) noisy_latents) (replicate B 1))
         = mean (map2 (\<lambda>p n. (p - n) ^ 2) (flatten noise_pred) (flatten noise))"
proof -
  let ?f = "\<lambda>p n::real. (p - n) ^ 2"
  let ?L = "map2 (map2 (map2 (map2 ?f))) noise_pred noise"
  have L: "mse_loss noise_pred noise = ?L" unfolding mse_loss_def by (rule t4_rect [OF np n])
  have shL: "has_shape B C H W ?L" by (rule has_shape_map2 [OF np n])
  then have lenL: "length ?L = B" by (simp add: has_shape_iff)
  have m: "t4 (*) ?L (map (\<lambda>item. [[[1]]]) noisy_latents) = ?L"
    by (rule t4_ones_mask) (simp only: lenL nl)
  have "length (mean123 ?L) = B" using lenL by (simp add: mean123_def)
  then have "bzip (*) (mean123 ?L) (replicate B 1) = mean123 ?L" by (rule bzip_replicate_one)
  then have "apply_mask_and_multiplier (mse_loss noise_pred noise)
            (map (\<lambda>item. [[[1]]]) noisy_latents) (replicate B 1) = mean123 ?L"
    unfolding apply_mask_and_multiplier_def masked_loss_def L m by (simp add: Let_def)
  then show ?thesis
    using mean_mean123 [OF shL] flatten_map2 [OF np n, of ?f] by simp
qed

lemma hook_tail_single:
  assumes "0 < B"
  shows "hook_train_loop_tail cfg (replicate B False) [tracked v] st
           = Inr (finish_step (tracked v) (st\<lparr>trace := trace st @ [Backward (tracked v)]\<rparr>))"
proof -
  have "step_loss_multiplier cfg (replicate B False) = replicate B 1"
    by (simp add: step_loss_multiplier_def)
  then have "mean (step_loss_multiplier cfg (replicate B False)) = 1"
    using assms by (simp add: mean_replicate_one)
  then have "backward_step cfg (replicate B False) (tracked v) st
          = Inr (tracked v, st\<lparr>trace := trace st @ [Backward (tracked v)]\<rparr>)"
    by (simp add: backward_step_def isnan_def tracked_def scalar_mul_def backward_def Let_def)
  then show ?thesis by (simp add: hook_train_loop_tail_def)
qed

text \<open>
  Claim C10.  A batch of \<open>B > 0\<close> items (4 in the scenario) without mask and regularization
  items and with loss multipliers 1, loss target \<open>noise\<close>, loss type \<open>mse\<close>, no prior
  prediction, no signal-to-noise reweighting and the other optional stages off (no norm
  matching, prediction scale 1, no turbo, an epsilon-prediction model that is not SD3, no
  additional loss of the adapter): the mask multiplier of the step is the tensor of ones,
  \<open>calculate_loss\<close> returns the mean of \<open>(prediction - noise)\<^sup>2\<close> over all entries of the
  batch, and the step reports that same value, its final multiplier being 1.
\<close>

theorem plain_mse_loss:
  assumes cfg: "loss_target cfg = ''noise''" "loss_type cfg = ''mse''" "\<not> match_noise_norm cfg"
      "pred_scaler cfg = 1" "\<not> train_turbo cfg" "\<not> learnable_snr_gos cfg"
      "snr_gamma cfg = None" "min_snr_gamma cfg = None"
    and sd: "prediction_type sd \<noteq> ''v_prediction''" "\<not> is_v3 sd"
    and b: "mask_tensor b = None" "is_reg_list b = replicate B False"
      "loss_multiplier_list b = replicate B 1"
    and shape: "has_shape B C H W noise_pred" "has_shape B C H W noise"
      "length noisy_latents = B" "0 < B"
    and adp: "adp = None \<or> (\<exists>a. adp = Some a \<and> additional_loss a = None)"
    and v: "v = mean (map2 (\<lambda>p n. (p - n) ^ 2) (flatten noise_pred) (flatten noise))"
  shows "\<exists>mask_multiplier st'.
           get_mask_multiplier sd b noisy_latents = Inr mask_multiplier
         \<and> calculate_loss cfg sd adp noise_pred noise noisy_latents timesteps b mask_multiplier None
             = Inr (v, adp)
         \<and> hook_train_loop_tail cfg (is_reg_list b) [tracked v] st = Inr (Num v, st')"
proof -
  let ?m = "map (\<lambda>item. [[[1]]]) noisy_latents"
  have gm: "get_mask_multiplier sd b noisy_latents = Inr ?m"
    using b(1) by (simp add: get_mask_multiplier_def)
  have sp: "scale_prediction cfg noise_pred noise = noise_pred"
    using cfg by (simp add: scale_prediction_def)
  have st: "select_target cfg sd b noise_pred noise timesteps ?m None = Inr (noise, noise, None)"
    using sd by (simp add: select_target_def)
  have el: "elementwise_loss cfg sd b noise_pred noise_pred noise noise noisy_latents timesteps
              = Inr (mse_loss noise_pred noise)"
    using cfg sd by (simp add: elementwise_loss_def)
  have pd: "prior_divergence cfg l noise_pred None = l" for l
    by (simp add: prior_divergence_def)
  have ip: "inverted_mask_prior_loss cfg noise_pred None None = Inr None"
    by (simp add: inverted_mask_prior_loss_def)
  have sn: "snr_reweight cfg sd l timesteps = l" for l
    using cfg by (simp add: snr_reweight_def)
  have pl: "mean (apply_mask_and_multiplier (mse_loss noise_pred noise) ?m (replicate B 1)) = v"
    unfolding v by (rule plain_items [OF shape(1,2,3)])
  have cl: "calculate_loss cfg sd adp noise_pred noise noisy_latents timesteps b ?m None = Inr (v, adp)"
    using adp cfg(5) b(3) pl
    by (auto simp: calculate_loss_def sp st el pd ip sn)
  have "hook_train_loop_tail cfg (is_reg_list b) [tracked v] st
          = Inr (finish_step (tracked v) (st\<lparr>trace := trace st @ [Backward (tracked v)]\<rparr>))"
    unfolding b(2) by (rule hook_tail_single [OF shape(4)])
  then have "\<exists>st'. hook_train_loop_tail cfg (is_reg_list b) [tracked v] st = Inr (Num v, st')"
    by (simp add: finish_step_def tracked_def Let_def)
  then show ?thesis using gm cl by blast
qed

text \<open>
  The theorem on a batch of four items of one entry each, with predictions 1, 2, 3, 4 and
  zero noise: the loss is \<open>(1 + 4 + 9 + 16) / 4\<close>.
\<close>

theorem plain_mse_loss_witness:
  "\<exists>mask_multiplier st'.
       get_mask_multiplier zero_model (plain_batch [[[[0]]], [[[0]]], [[[0]]], [[[0]]]])
         [[[[1]]], [[[2]]], [[[3]]], [[[4]]]] = Inr mask_multiplier
     \<and> calculate_loss plain_config zero_model None
         [[[[1]]], [[[2]]], [[[3]]], [[[4]]]] [[[[0]]], [[[0]]], [[[0]]], [[[0]]]]
         [[[[1]]], [[[2]]], [[[3]]], [[[4]]]] [10, 20, 30, 40]
         (plain_batch [[[[0]]], [[[0]]], [[[0]]], [[[0]]]]) mask_multiplier None
       = Inr (15 / 2, None)
     \<and> hook_train_loop_tail plain_config
         (is_reg_list (plain_batch [[[[0]]], [[[0]]], [[[0]]], [[[0]]]])) [tracked (15 / 2)]
         plain_trainer = Inr (Num (15 / 2), st')"
  using plain_mse_loss [where cfg = plain_config and sd = zero_model
      and b = "plain_batch [[[[0]]], [[[0]]], [[[0]]], [[[0]]]]" and B = 4 and C = 1 and H = 1
      and W = 1 and noise_pred = "[[[[1]]], [[[2]]], [[[3]]], [[[4]]]]"
      and noise = "[[[[0]]], [[[0]]], [[[0]]], [[[0]]]]"
      and noisy_latents = "[[[[1]]], [[[2]]], [[[3]]], [[[4]]]]" and adp = None
      and v = "15 / 2" and timesteps = "[10, 20, 30, 40]" and st = plain_trainer]
  by (simp add: plain_config_def zero_model_def plain_batch_def has_shape_def flatten_def
      mean_def numeral_eq_Suc)

text \<open>
  Claim C3, as the code has it.  The target selection of \<open>calculate_loss\<close> (lines 271-329),
  when it does not train turbo, chooses the target in this order: (a) if
  \<open>correct_pred_norm\<close> is set, or \<open>inverted_mask_prior\<close> is set and a prior prediction and a
  mask exist, the target is the noise: renormalised toward the prior prediction when
  \<open>correct_pred_norm\<close> is set, the batch has no regularization item and a prior prediction
  exists, and the raw noise otherwise; it is never a blend with the prior prediction;
  (c) otherwise the prior prediction if one exists and prior divergence is not requested;
  (d) otherwise the scheduler's velocity, taken from the pixel tensor of the batch, if the
  model uses v-prediction; (e) otherwise the raw noise.  With the target the selection
  hands on the noise, renormalised in case (a) as the target is, and the multiplier of the
  inverted mask, one minus the stretched mask, exactly when \<open>inverted_mask_prior\<close> is set
  and a prior prediction and a mask exist.  The pixel tensor is needed in case (d) only.
\<close>

theorem select_target_priority:
  assumes "\<not> train_turbo cfg"
    and "\<not> (correct_pred_norm cfg
             \<or> (inverted_mask_prior cfg \<and> prior_pred \<noteq> None \<and> mask_tensor b \<noteq> None))
         \<and> \<not> (prior_pred \<noteq> None \<and> \<not> do_prior_divergence cfg)
         \<and> prediction_type sd = ''v_prediction''
         \<longrightarrow> tensor b \<noteq> None"
  shows "select_target cfg sd b noise_pred noise timesteps mask_multiplier prior_pred
       = Inr (if correct_pred_norm cfg
                  \<or> (inverted_mask_prior cfg \<and> prior_pred \<noteq> None \<and> mask_tensor b \<noteq> None)
                then (if correct_pred_norm cfg \<and> True \<notin> set (is_reg_list b) \<and> prior_pred \<noteq> None
                        then correct_noise_norm cfg (the prior_pred) noise_pred noise
                      else noise)
              else if prior_pred \<noteq> None \<and> \<not> do_prior_divergence cfg then the prior_pred
              else if prediction_type sd = ''v_prediction''
                then get_velocity sd (the (tensor b)) noise timesteps
              else noise,
              if correct_pred_norm cfg \<and> True \<notin> set (is_reg_list b) \<and> prior_pred \<noteq> None
                then correct_noise_norm cfg (the prior_pred) noise_pred noise
              else noise,
              if inverted_mask_prior cfg \<and> prior_pred \<noteq> None \<and> mask_tensor b \<noteq> None
                then Some (tmap (\<lambda>m. 1 - m)
                             (tmap (\<lambda>m. value_map m (mask_min_value b) 1 0 1) mask_multiplier))
              else None)"
  using assms by (auto simp: select_target_def Let_def split: option.splits)

text \<open>
  The theorem on a batch without pixel tensor, with a prior prediction and neither norm
  correction nor prior divergence: the target is the prior prediction.
\<close>

theorem select_target_priority_witness:
  "select_target plain_config zero_model (plain_batch [[[[0]]]])
        [[[[0]]]] [[[[1]]]] [500] [[[[1]]]] (Some [[[[5]]]])
       = Inr ([[[[5]]]], [[[[1]]]], None)"
  using select_target_priority [where cfg = plain_config and b = "plain_batch [[[[0]]]]"
      and sd = zero_model and noise_pred = "[[[[0]]]]" and noise = "[[[[1]]]]"
      and timesteps = "[500]" and mask_multiplier = "[[[[1]]]]" and prior_pred = "Some [[[[5]]]]"]
  by (simp add: plain_config_def plain_batch_def)

text \<open>
  Claim C3 as stated fails in case (b): with \<open>inverted_mask_prior\<close>, a mask of 1/2, noise 1
  and prior prediction 5 the target is the noise, 1, and not the masked blend, which is 3.
\<close>

theorem select_target_blend_counterexample:
  "select_target (plain_config\<lparr>inverted_mask_prior := True\<rparr>) zero_model
       ((plain_batch [[[[0]]]])\<lparr>mask_tensor := Some [[[[1 / 2]]]]\<rparr>)
       [[[[0]]]] [[[[1]]]] [500] [[[[1 / 2]]]] (Some [[[[5]]]])
     = Inr ([[[[1]]]], [[[[1]]]], Some [[[[1 / 2]]]])
   \<and> spec_masked_blend [[[[1]]]] [[[[5]]]] [[[[1 / 2]]]] = [[[[3]]]]"
  by (simp add: select_target_def plain_config_def plain_batch_def value_map_def tmap_def
      spec_masked_blend_def t4_def Let_def)

section \<open>Properties of the training step and of the guidance strategies\<close>

lemma backward_and_detach_Inr:
  "backward_and_detach v st
     = (Inr \<lparr>val = Num v, requires_grad = True, graph_to_params = False\<rparr>,
        st\<lparr>trace := trace st @ [Backward (tracked v)]\<rparr>)"
  by (simp add: backward_and_detach_def backward_def tracked_def detach_def
      set_requires_grad_def Let_def)

lemmas concrete_defs = plain_config_def plain_batch_def zero_model_def failing_model_def
  plain_trainer_def guidance_batch_def polarity_call_def

lemmas tensor_defs = t4_def tmap_def mse_loss_def mean123_def mean_def

lemmas strategy_defs = Let_def backward_and_detach_Inr forward_def activate_network_def
  set_network_active_def set_network_multiplier_def

text \<open>
  Claim C2.  When the loss of a sub-batch is NaN, the step does not raise: the loss is
  replaced by a zero that requires grad (and whose graph does not lead to the parameters),
  \<open>backward\<close> is called on it, and the step goes on: gradient clipping, the optimizer step
  and the zeroing of gradients unless the step accumulates, then the scheduler step;
  the reported loss is 0.
\<close>

theorem nan_loss_substituted:
  assumes "isnan loss"
  shows "backward_step cfg is_regs loss st
           = Inr (\<lparr>val = Num 0, requires_grad = True, graph_to_params = False\<rparr>,
                  st\<lparr>trace := trace st
                     @ [Backward \<lparr>val = Num 0, requires_grad = True, graph_to_params = False\<rparr>]\<rparr>)
    \<and> (\<exists>rest. hook_train_loop_tail cfg is_regs [loss] st
           = Inr (Num 0,
                  st\<lparr>trace := trace st
                     @ [Backward \<lparr>val = Num 0, requires_grad = True, graph_to_params = False\<rparr>]
                     @ (if is_grad_accumulation_step st then []
                        else [ClipGradNorm, OptimizerStep, ZeroGrad])
                     @ [SchedulerStep] @ rest\<rparr>))"
proof -
  let ?z = "\<lparr>val = Num 0, requires_grad = True, graph_to_params = False\<rparr>"
  have bs: "backward_step cfg is_regs loss st = Inr (?z, st\<lparr>trace := trace st @ [Backward ?z]\<rparr>)"
    using assms
    by (simp add: backward_step_def zeros_like_def set_requires_grad_def scalar_mul_def
        backward_def Let_def)
  have "hook_train_loop_tail cfg is_regs [loss] st
          = Inr (finish_step ?z (st\<lparr>trace := trace st @ [Backward ?z]\<rparr>))"
    by (simp add: hook_train_loop_tail_def bs)
  moreover have "\<exists>rest. finish_step ?z (st\<lparr>trace := trace st @ [Backward ?z]\<rparr>)
          = (Num 0, st\<lparr>trace := trace st @ [Backward ?z]
                     @ (if is_grad_accumulation_step st then []
                        else [ClipGradNorm, OptimizerStep, ZeroGrad])
                     @ [SchedulerStep] @ rest\<rparr>)"
    by (cases "adapter st") (auto simp: finish_step_def Let_def)
  ultimately show ?thesis using bs by auto
qed

text \<open>
  The theorem on a step that does not accumulate gradients.
\<close>

theorem nan_loss_substituted_witness:
  "backward_step plain_config [False] \<lparr>val = NaN, requires_grad = True, graph_to_params = True\<rparr>
       plain_trainer
     = Inr (\<lparr>val = Num 0, requires_grad = True, graph_to_params = False\<rparr>,
            plain_trainer\<lparr>trace :=
              [Backward \<lparr>val = Num 0, requires_grad = True, graph_to_params = False\<rparr>]\<rparr>)
   \<and> hook_train_loop_tail plain_config [False]
       [\<lparr>val = NaN, requires_grad = True, graph_to_params = True\<rparr>] plain_trainer
     = Inr (Num 0,
            plain_trainer\<lparr>trace :=
              [Backward \<lparr>val = Num 0, requires_grad = True, graph_to_params = False\<rparr>,
               ClipGradNorm, OptimizerStep, ZeroGrad, SchedulerStep]\<rparr>)"
  using nan_loss_substituted [of "\<lparr>val = NaN, requires_grad = True, graph_to_params = True\<rparr>"
      plain_config "[False]" plain_trainer]
  by (simp add: isnan_def plain_trainer_def hook_train_loop_tail_def finish_step_def Let_def)

lemma chunk2_halves:
  "length xs = 2 * N \<Longrightarrow> chunk2 xs = Inr (take N xs, drop N xs)"
  by (cases N) (simp_all add: chunk2_def Let_def)

lemma activate_network_Some:
  "network st = Some n \<Longrightarrow>
     activate_network ws st
       = Inr (st\<lparr>unet_training := True, network := Some (n\<lparr>is_active := True, multiplier := ws\<rparr>)\<rparr>)"
  by (simp add: activate_network_def set_network_active_def set_network_multiplier_def)

text \<open>
  Claim C8.  The polarity strategy on a batch of \<open>N\<close> items, when the forward pass returns
  a prediction of \<open>2N\<close> rows: the trace grows by exactly one forward pass, which tracks
  gradients, whose latents are the conditional noisy latents followed by the unconditional
  ones (\<open>2N\<close> rows) and which sees the network active with the multiplier set to the
  weights followed by their negations; then by the backward pass.  The loss is the mean of
  the per-item sums of the two unreduced squared errors, of the first \<open>N\<close> and of the last
  \<open>N\<close> rows of the prediction, both against the same noise.
\<close>

theorem polarity_single_doubled_pass:
  assumes ul: "unconditional_latents b = Some unconditional"
    and net: "network st = Some n"
    and an: "length (add_noise sd (latents b) noise timesteps) = N"
      "length (add_noise sd unconditional noise timesteps) = N"
    and cat: "cat = map (\<lambda>w. w * 1) network_weight_list @ map (\<lambda>w. w * (- 1)) network_weight_list"
    and call: "call = \<lparr>grad_enabled = True,
                 call_network = Some (n\<lparr>is_active := True, multiplier := cat\<rparr>),
                 call_adapter = adapter st, call_unet_training = True,
                 call_args = guidance_args
                   (add_noise sd (latents b) noise timesteps @ add_noise sd unconditional noise timesteps)
                   (conditional_embeds @ conditional_embeds) (timesteps @ timesteps) pred_kwargs\<rparr>"
    and pred: "predict_noise sd call = Inr prediction" "length prediction = 2 * N"
    and v: "v = mean (bzip (+) (mean123 (mse_loss (take N prediction) noise))
                              (mean123 (mse_loss (drop N prediction) noise)))"
  shows "get_guided_loss_polarity sd st conditional_embeds network_weight_list timesteps
             pred_kwargs b noise
           = (Inr \<lparr>val = Num v, requires_grad = True, graph_to_params = False\<rparr>,
              st\<lparr>unet_training := True,
                 network := Some (n\<lparr>is_active := True, multiplier := cat\<rparr>),
                 trace := trace st @ [Forward call, Backward (tracked v)]\<rparr>)
    \<and> length (arg_latents (call_args call)) = 2 * N
    \<and> map (\<lambda>w. w * (- 1)) network_weight_list
         = map uminus (map (\<lambda>w. w * 1) network_weight_list)"
proof -
  let ?st1 = "st\<lparr>unet_training := True, network := Some (n\<lparr>is_active := True, multiplier := cat\<rparr>)\<rparr>"
  have act: "activate_network cat st = Inr ?st1" by (rule activate_network_Some [OF net])
  have fw: "forward sd True (call_args call) ?st1
              = (Inr prediction, ?st1\<lparr>trace := trace st @ [Forward call]\<rparr>)"
    using pred(1) by (simp add: forward_def call)
  have ch: "chunk2 prediction = Inr (take N prediction, drop N prediction)"
    by (rule chunk2_halves [OF pred(2)])
  have args: "call_args call = guidance_args
                   (add_noise sd (latents b) noise timesteps @ add_noise sd unconditional noise timesteps)
                   (conditional_embeds @ conditional_embeds) (timesteps @ timesteps) pred_kwargs"
    by (simp add: call)
  have 1: "get_guided_loss_polarity sd st conditional_embeds network_weight_list timesteps
             pred_kwargs b noise
           = (Inr \<lparr>val = Num v, requires_grad = True, graph_to_params = False\<rparr>,
              ?st1\<lparr>trace := trace st @ [Forward call, Backward (tracked v)]\<rparr>)"
  proof -
    have catn: "cat = network_weight_list @ map uminus network_weight_list"
      using cat by simp
    show ?thesis
      unfolding get_guided_loss_polarity_def
      using fw ch act
      by (simp add: ul Let_def args [symmetric] backward_and_detach_Inr v catn)
  qed
  have 2: "length (arg_latents (call_args call)) = 2 * N"
    using an by (simp add: call guidance_args_def)
  show ?thesis using 1 2 by (simp add: comp_def)
qed

lemma polarity_run:
  "get_guided_loss_polarity zero_model plain_trainer [[[0]]] [1] [500] [] guidance_batch [[[[1]]]]
     = (Inr \<lparr>val = Num 2, requires_grad = True, graph_to_params = False\<rparr>,
        plain_trainer\<lparr>unet_training := True,
          network := Some \<lparr>is_active = True, multiplier = [1, - 1]\<rparr>,
          trace := [Forward polarity_call, Backward (tracked 2)]\<rparr>)"
  by (simp add: get_guided_loss_polarity_def strategy_defs chunk2_def guidance_args_def
      concrete_defs tensor_defs)

text \<open>
  The theorem on a batch of one item.
\<close>

theorem polarity_single_doubled_pass_witness:
  "get_guided_loss_polarity zero_model plain_trainer [[[0]]] [1] [500] [] guidance_batch [[[[1]]]]
     = (Inr \<lparr>val = Num 2, requires_grad = True, graph_to_params = False\<rparr>,
        plain_trainer\<lparr>unet_training := True,
          network := Some \<lparr>is_active = True, multiplier = [1, - 1]\<rparr>,
          trace := trace plain_trainer @ [Forward polarity_call, Backward (tracked 2)]\<rparr>)
   \<and> length (arg_latents (call_args polarity_call)) = 2 * 1"
  using polarity_single_doubled_pass [where b = guidance_batch and unconditional = "[[[[0]]]]"
      and st = plain_trainer and n = "\<lparr>is_active = True, multiplier = [1]\<rparr>" and N = 1
      and sd = zero_model and noise = "[[[[1]]]]" and timesteps = "[500]" and cat = "[1, - 1]"
      and network_weight_list = "[1]" and call = polarity_call and conditional_embeds = "[[[0]]]"
      and pred_kwargs = "[]" and prediction = "[[[[0]]], [[[0]]]]" and v = 2]
  by (simp add: concrete_defs guidance_args_def tensor_defs)

lemma polarity_exit:
  assumes "get_guided_loss_polarity sd st ce ws ts kw b noise = (Inr s, st')"
  shows "\<exists>v tr n. s = \<lparr>val = Num v, requires_grad = True, graph_to_params = False\<rparr>
        \<and> trace st' = tr @ [Backward (tracked v)]
        \<and> network st = Some n
        \<and> network st' = Some (n\<lparr>is_active := True,
              multiplier := map (\<lambda>w. w * 1) ws @ map (\<lambda>w. w * (- 1)) ws\<rparr>)"
  using assms
  by (auto simp: get_guided_loss_polarity_def strategy_defs
      split: option.splits sum.splits prod.splits)

lemma targeted_polarity_exit:
  assumes "get_targeted_polarity_loss sd st ce ws ts kw b noise = (Inr s, st')"
  shows "\<exists>v tr n. s = \<lparr>val = Num v, requires_grad = True, graph_to_params = False\<rparr>
        \<and> trace st' = tr @ [Backward (tracked v)]
        \<and> network st = Some n
        \<and> network st' = Some (n\<lparr>is_active := True,
              multiplier := map (\<lambda>w. w * 1) ws @ map (\<lambda>w. w * (- 1)) ws\<rparr>)"
  using assms
  by (auto simp: get_targeted_polarity_loss_def strategy_defs
      split: option.splits sum.splits prod.splits)

lemma targeted_exit:
  assumes "get_targeted_guidance_loss sd st ce ws ts kw b noise = (Inr s, st')"
  shows "\<exists>v tr n. s = \<lparr>val = Num v, requires_grad = True, graph_to_params = False\<rparr>
        \<and> trace st' = tr @ [Backward (tracked v)]
        \<and> network st = Some n
        \<and> network st' = Some (n\<lparr>is_active := True, multiplier := ws\<rparr>)"
  using assms
  by (auto simp: get_targeted_guidance_loss_def strategy_defs
      split: option.splits sum.splits prod.splits)

lemma trainer_targeted_polarity_exit:
  assumes "get_guided_loss_targeted_polarity sd st ce ws ts kw b noise = (Inr s, st')"
  shows "\<exists>v tr n. s = \<lparr>val = Num v, requires_grad = True, graph_to_params = False\<rparr>
        \<and> trace st' = tr @ [Backward (tracked v)]
        \<and> network st = Some n
        \<and> network st' = Some (n\<lparr>is_active := True,
              multiplier := map (\<lambda>w. w * 2) ws @ map (\<lambda>w. w * (- 2)) ws\<rparr>)"
  using assms
  by (auto simp: get_guided_loss_targeted_polarity_def strategy_defs
      split: option.splits sum.splits prod.splits)

lemma guidance_exit:
  assumes "get_guidance_loss sd st ce ws ts kw b noise = (Inr s, st')"
  shows "\<exists>v tr n. s = \<lparr>val = Num v, requires_grad = True, graph_to_params = False\<rparr>
        \<and> trace st' = tr @ [Backward (tracked v)]
        \<and> network st = Some n
        \<and> network st' = Some (n\<lparr>is_active := True,
              multiplier := (if guidance_type b = ''targeted'' then ws
                             else map (\<lambda>w. w * 1) ws @ map (\<lambda>w. w * (- 1)) ws)\<rparr>)"
proof -
  consider "guidance_type b = ''targeted''" | "guidance_type b = ''polarity''"
    | "guidance_type b = ''targeted_polarity''"
    using assms by (auto simp: get_guidance_loss_def split: if_splits)
  then show ?thesis
  proof cases
    case 1
    then show ?thesis using assms targeted_exit [of sd st ce ws ts kw b noise s st']
      by (simp add: get_guidance_loss_def)
  next
    case 2
    then show ?thesis using assms polarity_exit [of sd st ce ws ts kw b noise s st']
      by (simp add: get_guidance_loss_def)
  next
    case 3
    then show ?thesis using assms targeted_polarity_exit [of sd st ce ws ts kw b noise s st']
      by (simp add: get_guidance_loss_def)
  qed
qed

lemma backward_step_detached:
  "backward_step cfg is_regs \<lparr>val = Num v, requires_grad = True, graph_to_params = False\<rparr> st
     = Inr (\<lparr>val = Num (v * mean (step_loss_multiplier cfg is_regs)), requires_grad = True,
             graph_to_params = False\<rparr>,
            st\<lparr>trace := trace st
               @ [Backward \<lparr>val = Num (v * mean (step_loss_multiplier cfg is_regs)),
                           requires_grad = True, graph_to_params = False\<rparr>]\<rparr>)"
  by (simp add: backward_step_def isnan_def scalar_mul_def backward_def Let_def)

lemma guidance_run:
  "get_guidance_loss zero_model plain_trainer [[[0]]] [1] [500] [] guidance_batch [[[[1]]]]
     = (Inr \<lparr>val = Num 2, requires_grad = True, graph_to_params = False\<rparr>,
        plain_trainer\<lparr>unet_training := True,
          network := Some \<lparr>is_active = True, multiplier = [1, - 1]\<rparr>,
          trace := [Forward polarity_call, Backward (tracked 2)]\<rparr>)"
  using polarity_run by (simp add: get_guidance_loss_def guidance_batch_def plain_batch_def)

text \<open>
  Claim C7, as the code has it.  Every strategy that \<open>get_guidance_loss\<close> dispatches to,
  and the trainer's own \<open>get_guided_loss_targeted_polarity\<close>, calls \<open>backward\<close> on its loss
  inside the function: the last event of the trace is the backward pass from the tracked
  loss \<open>v\<close>.  The scalar it returns is detached and requires grad, and its value is that
  same loss \<open>v\<close>, not zero.  The step's own \<open>backward\<close> on it does not raise and starts from
  a tensor whose graph does not lead to the parameters.
\<close>

theorem guidance_backward_inside:
  assumes "get_guidance_loss sd st ce ws ts kw b noise = (Inr s, st')
         \<or> get_guided_loss_targeted_polarity sd st ce ws ts kw b noise = (Inr s, st')"
  shows "\<exists>v tr. s = \<lparr>val = Num v, requires_grad = True, graph_to_params = False\<rparr>
        \<and> trace st' = tr @ [Backward (tracked v)]
        \<and> backward_step cfg is_regs s st'
            = Inr (\<lparr>val = Num (v * mean (step_loss_multiplier cfg is_regs)),
                     requires_grad = True, graph_to_params = False\<rparr>,
                   st'\<lparr>trace := trace st'
                      @ [Backward \<lparr>val = Num (v * mean (step_loss_multiplier cfg is_regs)),
                                  requires_grad = True, graph_to_params = False\<rparr>]\<rparr>)"
proof -
  from assms obtain v tr where "s = \<lparr>val = Num v, requires_grad = True, graph_to_params = False\<rparr>"
    and "trace st' = tr @ [Backward (tracked v)]"
    using guidance_exit [of sd st ce ws ts kw b noise s st']
      trainer_targeted_polarity_exit [of sd st ce ws ts kw b noise s st']
    by blast
  then show ?thesis using backward_step_detached by blast
qed

text \<open>
  The theorem on the polarity strategy with a batch of one item.
\<close>

theorem guidance_backward_inside_witness:
  "\<exists>v tr. \<lparr>val = Num 2, requires_grad = True, graph_to_params = False\<rparr>
             = \<lparr>val = Num v, requires_grad = True, graph_to_params = False\<rparr>
        \<and> [Forward polarity_call, Backward (tracked 2)] = tr @ [Backward (tracked v)]
        \<and> backward_step plain_config [False]
              \<lparr>val = Num 2, requires_grad = True, graph_to_params = False\<rparr>
              (plain_trainer\<lparr>unet_training := True,
                 network := Some \<lparr>is_active = True, multiplier = [1, - 1]\<rparr>,
                 trace := [Forward polarity_call, Backward (tracked 2)]\<rparr>)
            = Inr (\<lparr>val = Num (v * mean (step_loss_multiplier plain_config [False])),
                     requires_grad = True, graph_to_params = False\<rparr>,
                   plain_trainer\<lparr>unet_training := True,
                     network := Some \<lparr>is_active = True, multiplier = [1, - 1]\<rparr>,
                     trace := [Forward polarity_call, Backward (tracked 2)]
                       @ [Backward \<lparr>val = Num (v * mean (step_loss_multiplier plain_config [False])),
                                   requires_grad = True, graph_to_params = False\<rparr>]\<rparr>)"
  using guidance_backward_inside [where sd = zero_model and st = plain_trainer and ce = "[[[0]]]"
      and ws = "[1]" and ts = "[500]" and kw = "[]" and b = guidance_batch
      and noise = "[[[[1]]]]"
      and s = "\<lparr>val = Num 2, requires_grad = True, graph_to_params = False\<rparr>"
      and st' = "plain_trainer\<lparr>unet_training := True,
          network := Some \<lparr>is_active = True, multiplier = [1, - 1]\<rparr>,
          trace := [Forward polarity_call, Backward (tracked 2)]\<rparr>"
      and cfg = plain_config and is_regs = "[False]"]
  by (simp add: guidance_run)

text \<open>
  Claim C7 as stated fails in the value of the returned scalar: with zero latents, noise 1
  and a model that predicts 0, the polarity strategy returns the loss 2, not 0.
\<close>

theorem guidance_value_counterexample:
  "fst (get_guidance_loss zero_model plain_trainer [[[0]]] [1] [500] [] guidance_batch [[[[1]]]])
     = Inr \<lparr>val = Num 2, requires_grad = True, graph_to_params = False\<rparr>
   \<and> Num 2 \<noteq> Num 0"
  by (simp add: guidance_run)

lemma prior_prediction_exit:
  "case get_prior_prediction cfg sd st nl ce maa ts kw b ue of
     (Inr p, kw', st') \<Rightarrow> network st' = network st \<and> adapter st' = adapter st
   | (Inl e, kw', st') \<Rightarrow>
       network st' = map_option (\<lambda>n. n\<lparr>is_active := False\<rparr>) (network st)
       \<and> adapter st'
           = map_option
               (\<lambda>a. if kind a = IPAdapter \<or> kind a = ReferenceAdapter \<or> kind a = CustomAdapter
                    then a\<lparr>is_active := False\<rparr> else a)
               (adapter st)"
proof (cases "network st")
  case None
  show ?thesis
  proof (cases "adapter st")
    case N2: None
    show ?thesis
      by (simp add: get_prior_prediction_def None N2 Let_def forward_def
          split: sum.splits)
  next
    case (Some a)
    show ?thesis
      by (cases "kind a")
        (simp_all add: get_prior_prediction_def None Some Let_def forward_def
          split: sum.splits option.splits)
  qed
next
  case (Some n)
  show ?thesis
  proof (cases "adapter st")
    case None
    show ?thesis
      by (simp add: get_prior_prediction_def None Some Let_def forward_def
          split: sum.splits)
  next
    case S2: (Some a)
    show ?thesis
      by (cases "kind a")
        (simp_all add: get_prior_prediction_def Some S2 Let_def forward_def
          split: sum.splits option.splits)
  qed
qed

lemma prior_run_ok:
  "get_prior_prediction plain_config zero_model plain_trainer [[[[1]]]] [[[0]]] False [500] []
       (plain_batch [[[[0]]]]) None
     = (Inr [[[[0]]]], [],
        plain_trainer\<lparr>trace :=
          [Forward \<lparr>grad_enabled = False,
             call_network = Some \<lparr>is_active = False, multiplier = [1]\<rparr>,
             call_adapter = Some \<lparr>is_active = False, kind = IPAdapter, additional_loss = None\<rparr>,
             call_unet_training = False,
             call_args = \<lparr>arg_latents = [[[[1]]]], conditional_embeddings = [[[0]]],
               unconditional_embeddings = None, timestep = [500], guidance_scale = 1,
               rescale_cfg = Some False, residuals = []\<rparr>\<rparr>]\<rparr>)"
  by (simp add: get_prior_prediction_def Let_def forward_def strip_residuals_def slice_to_def
      shape1_def concrete_defs tmap_def)

lemma prior_run_raise:
  "get_prior_prediction plain_config failing_model plain_trainer [[[[1]]]] [[[0]]] False [500] []
       (plain_batch [[[[0]]]]) None
     = (Inl CollaboratorError, [],
        plain_trainer\<lparr>
          network := Some \<lparr>is_active = False, multiplier = [1]\<rparr>,
          adapter := Some \<lparr>is_active = False, kind = IPAdapter, additional_loss = None\<rparr>,
          unet_training := False,
          trace :=
          [Forward \<lparr>grad_enabled = False,
             call_network = Some \<lparr>is_active = False, multiplier = [1]\<rparr>,
             call_adapter = Some \<lparr>is_active = False, kind = IPAdapter, additional_loss = None\<rparr>,
             call_unet_training = False,
             call_args = \<lparr>arg_latents = [[[[1]]]], conditional_embeddings = [[[0]]],
               unconditional_embeddings = None, timestep = [500], guidance_scale = 1,
               rescale_cfg = Some False, residuals = []\<rparr>\<rparr>]\<rparr>)"
  by (simp add: get_prior_prediction_def Let_def forward_def strip_residuals_def slice_to_def
      shape1_def concrete_defs tmap_def)

text \<open>
  Claim C1, as the code has it.  When \<open>get_prior_prediction\<close> returns, the network and the
  adapter are as they were before the call (\<open>is_active\<close>, \<open>multiplier\<close> and every other
  field).  When it raises, nothing is restored: the network is left switched off, and so
  is the adapter if it is one that the function disables (an IP, reference or custom
  adapter); an adapter of another kind is as it was.  The guidance strategies restore
  nothing either: when one returns, the network is active and its multiplier is the one
  the strategy has set, the given weights for \<open>targeted\<close> and the weights followed by their
  negations for \<open>polarity\<close> and \<open>targeted_polarity\<close>.
\<close>

theorem network_state_after_calls:
  "(get_prior_prediction cfg sd st nl ce maa ts kw b ue = (Inr p, kw', st1)
      \<longrightarrow> network st1 = network st \<and> adapter st1 = adapter st)
   \<and> (get_prior_prediction cfg sd st nl ce maa ts kw b ue = (Inl e, kw', st1)
      \<longrightarrow> network st1 = map_option (\<lambda>n. n\<lparr>is_active := False\<rparr>) (network st)
        \<and> adapter st1
            = map_option
                (\<lambda>a. if kind a = IPAdapter \<or> kind a = ReferenceAdapter \<or> kind a = CustomAdapter
                     then a\<lparr>is_active := False\<rparr> else a)
                (adapter st))
   \<and> (get_guidance_loss sd st ce ws ts kw b noise = (Inr s, st2)
      \<longrightarrow> (\<exists>n. network st = Some n
            \<and> network st2 = Some (n\<lparr>is_active := True,
                  multiplier := (if guidance_type b = ''targeted'' then ws
                                 else map (\<lambda>w. w * 1) ws @ map (\<lambda>w. w * (- 1)) ws)\<rparr>)))"
proof -
  note ex = prior_prediction_exit [where cfg = cfg and sd = sd and st = st and nl = nl and ce = ce
      and maa = maa and ts = ts and kw = kw and b = b and ue = ue]
  have 1: "network st1 = network st \<and> adapter st1 = adapter st"
    if "get_prior_prediction cfg sd st nl ce maa ts kw b ue = (Inr p, kw', st1)"
    using ex that by simp
  have 2: "network st1 = map_option (\<lambda>n. n\<lparr>is_active := False\<rparr>) (network st)
        \<and> adapter st1
            = map_option
                (\<lambda>a. if kind a = IPAdapter \<or> kind a = ReferenceAdapter \<or> kind a = CustomAdapter
                     then a\<lparr>is_active := False\<rparr> else a)
                (adapter st)"
    if "get_prior_prediction cfg sd st nl ce maa ts kw b ue = (Inl e, kw', st1)"
    using ex that by simp
  have 3: "\<exists>n. network st = Some n
            \<and> network st2 = Some (n\<lparr>is_active := True,
                  multiplier := (if guidance_type b = ''targeted'' then ws
                                 else map (\<lambda>w. w * 1) ws @ map (\<lambda>w. w * (- 1)) ws)\<rparr>)"
    if "get_guidance_loss sd st ce ws ts kw b noise = (Inr s, st2)"
    using guidance_exit [OF that] by blast
  show ?thesis using 1 2 3 by blast
qed

text \<open>
  The theorem on a forward pass that returns, on one that raises, and on the polarity
  strategy.
\<close>

theorem network_state_after_calls_witness:
  "network (snd (snd
        (get_prior_prediction plain_config zero_model plain_trainer [[[[1]]]] [[[0]]] False [500] []
           (plain_batch [[[[0]]]]) None))) = network plain_trainer
   \<and> adapter (snd (snd
        (get_prior_prediction plain_config zero_model plain_trainer [[[[1]]]] [[[0]]] False [500] []
           (plain_batch [[[[0]]]]) None))) = adapter plain_trainer
   \<and> network (snd (snd
        (get_prior_prediction plain_config failing_model plain_trainer [[[[1]]]] [[[0]]] False
           [500] [] (plain_batch [[[[0]]]]) None)))
       = map_option (\<lambda>n. n\<lparr>is_active := False\<rparr>) (network plain_trainer)
   \<and> adapter (snd (snd
        (get_prior_prediction plain_config failing_model plain_trainer [[[[1]]]] [[[0]]] False
           [500] [] (plain_batch [[[[0]]]]) None)))
       = map_option
           (\<lambda>a. if kind a = IPAdapter \<or> kind a = ReferenceAdapter \<or> kind a = CustomAdapter
                then a\<lparr>is_active := False\<rparr> else a)
           (adapter plain_trainer)
   \<and> (\<exists>n. network plain_trainer = Some n
        \<and> network (snd
             (get_guidance_loss zero_model plain_trainer [[[0]]] [1] [500] [] guidance_batch
                [[[[1]]]]))
           = Some (n\<lparr>is_active := True, multiplier := [1 * 1] @ [1 * (- 1)]\<rparr>))"
proof -
  let ?ok = "get_prior_prediction plain_config zero_model plain_trainer [[[[1]]]] [[[0]]] False
               [500] [] (plain_batch [[[[0]]]]) None"
  let ?bad = "get_prior_prediction plain_config failing_model plain_trainer [[[[1]]]] [[[0]]]
               False [500] [] (plain_batch [[[[0]]]]) None"
  let ?g = "get_guidance_loss zero_model plain_trainer [[[0]]] [1] [500] [] guidance_batch
               [[[[1]]]]"
  have ok: "?ok = (Inr [[[[0]]]], [], snd (snd ?ok))" by (simp add: prior_run_ok)
  have bad: "?bad = (Inl CollaboratorError, [], snd (snd ?bad))" by (simp add: prior_run_raise)
  have g: "?g = (Inr \<lparr>val = Num 2, requires_grad = True, graph_to_params = False\<rparr>, snd ?g)"
    by (simp add: guidance_run)
  have gt: "guidance_type guidance_batch \<noteq> ''targeted''"
    by (simp add: guidance_batch_def plain_batch_def)
  show ?thesis
    using
      network_state_after_calls [where cfg = plain_config and sd = zero_model
        and st = plain_trainer and nl = "[[[[1]]]]" and ce = "[[[0]]]" and maa = False
        and ts = "[500]" and kw = "[]" and b = "plain_batch [[[[0]]]]" and ue = None
        and p = "[[[[0]]]]" and kw' = "[]" and ?st1.0 = "snd (snd ?ok)"]
      network_state_after_calls [where cfg = plain_config and sd = failing_model
        and st = plain_trainer and nl = "[[[[1]]]]" and ce = "[[[0]]]" and maa = False
        and ts = "[500]" and kw = "[]" and b = "plain_batch [[[[0]]]]" and ue = None
        and e = CollaboratorError and kw' = "[]" and ?st1.0 = "snd (snd ?bad)"]
      network_state_after_calls [where sd = zero_model and st = plain_trainer
        and ce = "[[[0]]]" and ws = "[1]" and ts = "[500]" and kw = "[]"
        and b = guidance_batch and noise = "[[[[1]]]]"
        and s = "\<lparr>val = Num 2, requires_grad = True, graph_to_params = False\<rparr>"
        and ?st2.0 = "snd ?g"]
      ok bad g gt
    by simp
qed

text \<open>
  Claim C1 as stated fails.  When the forward pass raises inside \<open>get_prior_prediction\<close>,
  the network and the adapter, active before the call, are inactive after it.  The
  polarity strategy, called with the multiplier \<open>[1]\<close>, returns with the multiplier
  \<open>[1, -1]\<close>.
\<close>

theorem network_state_counterexample:
  "map_option is_active (network plain_trainer) = Some True
   \<and> fst (get_prior_prediction plain_config failing_model plain_trainer [[[[1]]]] [[[0]]] False
           [500] [] (plain_batch [[[[0]]]]) None) = Inl CollaboratorError
   \<and> map_option is_active (network (snd (snd
        (get_prior_prediction plain_config failing_model plain_trainer [[[[1]]]] [[[0]]] False
           [500] [] (plain_batch [[[[0]]]]) None)))) = Some False
   \<and> map_option is_active (adapter plain_trainer) = Some True
   \<and> map_option is_active (adapter (snd (snd
        (get_prior_prediction plain_config failing_model plain_trainer [[[[1]]]] [[[0]]] False
           [500] [] (plain_batch [[[[0]]]]) None)))) = Some False
   \<and> map_option multiplier (network plain_trainer) = Some [1]
   \<and> map_option multiplier (network (snd
        (get_guided_loss_polarity zero_model plain_trainer [[[0]]] [1] [500] [] guidance_batch
           [[[[1]]]]))) = Some [1, - 1]"
  by (simp add: prior_run_raise polarity_run) (simp add: plain_trainer_def)

end
